theory Spec2Isabelle
  imports Complex_Main "HOL-Library.Sublist"
begin

section \<open>The OCR pipeline API service (api-service/main.py)\<close>

text \<open>
  A shallow embedding of the pure parts of the pipeline: the context truncation, the
  document classifier, the JSON extraction, the aggregation of the streamed model
  output and the conversion of the parsed payload into records.

  A Python \<open>str\<close> is modelled as a \<open>string\<close>, a list of 8-bit characters read as
  the code points 0 to 255; \<open>len\<close> is \<open>length\<close>. A Python \<open>int\<close> is an \<open>int\<close>.
\<close>

subsection \<open>truncate_text_for_context\<close>

text \<open>\<open>text.split('\n')\<close>: the pieces between line feeds; never the empty list.\<close>

fun split_lines :: "string \<Rightarrow> string list" where
  "split_lines [] = [[]]"
| "split_lines (c # cs) =
     (if c = CHR 0x0A then [] # split_lines cs
      else (case split_lines cs of [] \<Rightarrow> [[c]] | l # ls \<Rightarrow> (c # l) # ls))"

text \<open>\<open>'\n'.join(result_lines)\<close>.\<close>

fun join_lines :: "string list \<Rightarrow> string" where
  "join_lines [] = []"
| "join_lines [l] = l"
| "join_lines (l # ls) = l @ CHR 0x0A # join_lines ls"

text \<open>The marker the loop appends at the cut: a line feed and the bracketed notice.\<close>

definition sentinel :: string where
  "sentinel = CHR 0x0A # ''[... document truncated for context limit ...]''"

text \<open>
  The \<open>for line in lines\<close> loop, with its two variables \<open>result_lines\<close> and
  \<open>char_count\<close>; \<open>break\<close> ends the recursion.
\<close>

fun truncate_loop :: "int \<Rightarrow> string list \<Rightarrow> int \<Rightarrow> string list \<Rightarrow> string list" where
  "truncate_loop max_chars result_lines char_count [] = result_lines"
| "truncate_loop max_chars result_lines char_count (line # lines) =
     (if char_count + int (length line) + 1 > max_chars
      then result_lines @ [sentinel]
      else truncate_loop max_chars (result_lines @ [line])
             (char_count + int (length line) + 1) lines)"

definition truncate_text_for_context :: "string \<Rightarrow> int \<Rightarrow> string" where
  "truncate_text_for_context text max_chars =
     (if int (length text) \<le> max_chars then text
      else join_lines (truncate_loop max_chars [] 0 (split_lines text)))"

text \<open>The kept lines, each followed by its separator: what precedes the marker.\<close>

definition with_separators :: "string list \<Rightarrow> string" where
  "with_separators ls = concat (map (\<lambda>l. l @ [CHR 0x0A]) ls)"


subsection \<open>detect_document_type\<close>

datatype DocumentType = BANK_STATEMENT | CREDIT_CARD | BILL | LOAN | AUTO

text \<open>
  \<open>text.lower()\<close> on the code points 0 to 255: the letters A to Z and the accented
  capitals 0xC0 to 0xDE (without the multiplication sign 0xD7) move up by 32, which sets
  bit 5; every other character stays.
\<close>

definition is_upper :: "char \<Rightarrow> bool" where
  "is_upper c = (let n = (of_char c :: nat) in
     (65 \<le> n \<and> n \<le> 90) \<or> (192 \<le> n \<and> n \<le> 222 \<and> n \<noteq> 215))"

fun lower_char :: "char \<Rightarrow> char" where
  "lower_char (Char b0 b1 b2 b3 b4 b5 b6 b7) =
     (if is_upper (Char b0 b1 b2 b3 b4 b5 b6 b7) then Char b0 b1 b2 b3 b4 True b6 b7
      else Char b0 b1 b2 b3 b4 b5 b6 b7)"

definition lower :: "string \<Rightarrow> string" where
  "lower text = map lower_char text"

text \<open>\<open>t in text\<close> on strings: \<open>t\<close> starts at some position of \<open>text\<close>.\<close>

fun str_contains :: "string \<Rightarrow> string \<Rightarrow> bool" where
  "str_contains t [] = (t = [])"
| "str_contains t (c # cs) = (prefix t (c # cs) \<or> str_contains t cs)"

text \<open>The three keyword lists, in the order the function tests them.\<close>

definition credit_card_terms :: "string list" where
  "credit_card_terms =
     [''credit card'', ''card ending'', ''minimum payment due'',
      ''credit limit'', ''available credit'', ''apr'']"

definition loan_terms :: "string list" where
  "loan_terms =
     [''loan'', ''principal balance'', ''payoff amount'',
      ''mortgage'', ''interest rate'', ''escrow'']"

definition bill_terms :: "string list" where
  "bill_terms =
     [''electric'', ''gas bill'', ''water bill'', ''internet'',
      ''phone bill'', ''service period'', ''meter reading'',
      ''usage'', ''kwh'']"

text \<open>\<open>any(term in text_lower for term in [...])\<close> is \<open>list_ex\<close> over the list.\<close>

definition detect_document_type :: "string \<Rightarrow> DocumentType" where
  "detect_document_type text =
     (let text_lower = lower text in
      if list_ex (\<lambda>t. str_contains t text_lower) credit_card_terms then CREDIT_CARD
      else if list_ex (\<lambda>t. str_contains t text_lower) loan_terms then LOAN
      else if list_ex (\<lambda>t. str_contains t text_lower) bill_terms then BILL
      else BANK_STATEMENT)"


subsection \<open>Python values and exceptions\<close>

text \<open>
  A Python \<open>float\<close>: the number a finite double denotes, an infinity with its sign
  (\<open>True\<close> for the negative one), or a NaN.
\<close>

datatype pyfloat = Finite rat | Infinity bool | NaN

text \<open>
  What \<open>json.loads\<close> returns: \<open>None\<close>, a \<open>bool\<close>, an \<open>int\<close>, a \<open>float\<close>, a
  \<open>str\<close>, a \<open>list\<close> or a \<open>dict\<close> with string keys. A dict is the list of its
  items; \<open>map_of\<close> looks a key up.
\<close>

datatype pyval =
    PNone
  | PBool bool
  | PInt int
  | PFloat pyfloat
  | PStr string
  | PList "pyval list"
  | PDict "(string \<times> pyval) list"

text \<open>The exceptions the modelled code can meet; a raise is an \<open>Inl\<close>.\<close>

datatype exn =
    AttributeError
  | TypeError
  | ValueError
  | OverflowError
  | ValidationError
  | JSONDecodeError
  | RecursionError
  | UnicodeDecodeError
  | HTTPException nat

text \<open>\<open>d.get(key, default)\<close>: only a dict has the method.\<close>

fun py_get :: "pyval \<Rightarrow> string \<Rightarrow> pyval \<Rightarrow> exn + pyval" where
  "py_get (PDict items) key dflt =
     Inr (case map_of items key of Some v \<Rightarrow> v | None \<Rightarrow> dflt)"
| "py_get _ key dflt = Inl AttributeError"

text \<open>The truth value of an object, as \<open>if x:\<close> takes it.\<close>

fun py_truthy :: "pyval \<Rightarrow> bool" where
  "py_truthy PNone = False"
| "py_truthy (PBool b) = b"
| "py_truthy (PInt n) = (n \<noteq> 0)"
| "py_truthy (PFloat f) = (f \<noteq> Finite 0)"
| "py_truthy (PStr s) = (s \<noteq> [])"
| "py_truthy (PList xs) = (xs \<noteq> [])"
| "py_truthy (PDict items) = (items \<noteq> [])"

text \<open>\<open>full_response += v\<close> on a \<open>str\<close>: \<open>v\<close> must be a \<open>str\<close> too.\<close>

fun py_str_add :: "string \<Rightarrow> pyval \<Rightarrow> exn + string" where
  "py_str_add s (PStr t) = Inr (s @ t)"
| "py_str_add s _ = Inl TypeError"


subsection \<open>call_ollama: aggregation of the streamed response\<close>

text \<open>
  \<open>json.loads\<close> is a parameter \<open>loads\<close> with three kinds of outcome: the decoded
  value, \<open>Inl JSONDecodeError\<close>, or any other exception it can raise (a
  \<open>RecursionError\<close> on input nested too deep, a \<open>ValueError\<close> on an integer with
  too many digits).

  The response is its status code, whether the body read on an error status decodes as
  text, and the finite sequence of lines that \<open>response.aiter_lines()\<close> yields; a
  failure of the transport itself is outside the model. The loop body appends the
  fragment, then tests \<open>done\<close>; only \<open>JSONDecodeError\<close> is caught, so any other
  exception, of \<open>json.loads\<close> or of the two statements after it, leaves the function.
\<close>

fun aggregate_lines :: "(string \<Rightarrow> exn + pyval) \<Rightarrow> string \<Rightarrow> string list \<Rightarrow> exn + string" where
  "aggregate_lines loads full_response [] = Inr full_response"
| "aggregate_lines loads full_response (line # lines) =
     (if line = [] then aggregate_lines loads full_response lines
      else case loads line of
        Inl e \<Rightarrow>
          if e = JSONDecodeError then aggregate_lines loads full_response lines
          else Inl e
      | Inr chunk \<Rightarrow>
          (case py_get chunk ''response'' (PStr []) of
             Inl e \<Rightarrow> Inl e
           | Inr fragment \<Rightarrow>
               (case py_str_add full_response fragment of
                  Inl e \<Rightarrow> Inl e
                | Inr full_response' \<Rightarrow>
                    (case py_get chunk ''done'' (PBool False) of
                       Inl e \<Rightarrow> Inl e
                     | Inr is_done \<Rightarrow>
                         if py_truthy is_done then Inr full_response'
                         else aggregate_lines loads full_response' lines))))"

definition call_ollama ::
  "(string \<Rightarrow> exn + pyval) \<Rightarrow> nat \<Rightarrow> bool \<Rightarrow> string list \<Rightarrow> exn + string" where
  "call_ollama loads status_code error_text_decodes lines =
     (if status_code \<noteq> 200 then
        (if error_text_decodes then Inl (HTTPException 502) else Inl UnicodeDecodeError)
      else aggregate_lines loads [] lines)"

text \<open>
  For the statements about the aggregation. A chunk is well formed when it is an object
  whose \<open>response\<close>, if present, is a string; its fragment is that string; it signals
  completion when its \<open>done\<close> entry is true. A line completes the stream when it is
  not empty and decodes to a chunk that signals completion; the lines read are those up to
  and including the first that completes. A line is readable when it is empty, or
  \<open>json.loads\<close> reports a decode error on it, or it decodes to a well-formed chunk.
  The parsed chunks of some lines are the values of the non-empty lines that decode, in
  arrival order.
\<close>

fun well_formed_chunk :: "pyval \<Rightarrow> bool" where
  "well_formed_chunk (PDict items) =
     (case map_of items ''response'' of
        None \<Rightarrow> True | Some (PStr s) \<Rightarrow> True | Some _ \<Rightarrow> False)"
| "well_formed_chunk _ = False"

fun chunk_fragment :: "pyval \<Rightarrow> string" where
  "chunk_fragment (PDict items) =
     (case map_of items ''response'' of Some (PStr s) \<Rightarrow> s | _ \<Rightarrow> [])"
| "chunk_fragment _ = []"

fun chunk_done :: "pyval \<Rightarrow> bool" where
  "chunk_done (PDict items) =
     (case map_of items ''done'' of Some v \<Rightarrow> py_truthy v | None \<Rightarrow> False)"
| "chunk_done _ = False"

definition completes :: "(string \<Rightarrow> exn + pyval) \<Rightarrow> string \<Rightarrow> bool" where
  "completes loads line =
     (line \<noteq> [] \<and> (case loads line of Inr chunk \<Rightarrow> chunk_done chunk | Inl e \<Rightarrow> False))"

fun lines_read :: "(string \<Rightarrow> exn + pyval) \<Rightarrow> string list \<Rightarrow> string list" where
  "lines_read loads [] = []"
| "lines_read loads (line # lines) =
     (if completes loads line then [line] else line # lines_read loads lines)"

definition readable :: "(string \<Rightarrow> exn + pyval) \<Rightarrow> string \<Rightarrow> bool" where
  "readable loads line =
     (line = [] \<or>
      (case loads line of
         Inl e \<Rightarrow> e = JSONDecodeError
       | Inr chunk \<Rightarrow> well_formed_chunk chunk))"

definition parsed_chunks :: "(string \<Rightarrow> exn + pyval) \<Rightarrow> string list \<Rightarrow> pyval list" where
  "parsed_chunks loads lines =
     List.map_filter (\<lambda>line. case loads line of Inr chunk \<Rightarrow> Some chunk | Inl e \<Rightarrow> None)
       (filter (\<lambda>line. line \<noteq> []) lines)"

text \<open>
  A decoder for the worked examples. On a line of 100000 or more opening brackets it
  raises \<open>RecursionError\<close>, as \<open>json.loads\<close> does on input nested beyond the
  interpreter's recursion limit; it gives the JSON documents used in the examples the
  value \<open>json.loads\<close> gives; on every other string it reports a decode error. The
  examples hand it, besides these, only strings that are not JSON.
\<close>

definition deeply_nested :: string where
  "deeply_nested = replicate 100000 (CHR ''['')"

definition example_documents :: "(string \<times> pyval) list" where
  "example_documents =
     [(''{\"response\":\"Hel\",\"done\":false}'',
         PDict [(''response'', PStr ''Hel''), (''done'', PBool False)]),
      (''{\"response\":\"lo\"}'',
         PDict [(''response'', PStr ''lo'')]),
      (''{\"response\":\"!\",\"done\":true}'',
         PDict [(''response'', PStr ''!''), (''done'', PBool True)]),
      (''{\"response\":\" more\",\"done\":false}'',
         PDict [(''response'', PStr '' more''), (''done'', PBool False)]),
      (''[1]'', PList [PInt 1]),
      (''{\"a\": 1}'', PDict [(''a'', PInt 1)])]"

definition example_loads :: "string \<Rightarrow> exn + pyval" where
  "example_loads s =
     (if 100000 \<le> length s \<and> list_all (\<lambda>c. c = CHR ''['') s then Inl RecursionError
      else case map_of example_documents s of
             Some v \<Rightarrow> Inr v
           | None \<Rightarrow> Inl JSONDecodeError)"


subsection \<open>extract_json_from_response\<close>

text \<open>
  White space as \<open>str.strip()\<close> and the pattern \<open>\s\<close> take it, among the code points
  0 to 255: tab to carriage return, the four separators 0x1C to 0x1F, the space, 0x85 and
  the no-break space.
\<close>

definition is_space :: "char \<Rightarrow> bool" where
  "is_space c = (let n = (of_char c :: nat) in
     (9 \<le> n \<and> n \<le> 13) \<or> (28 \<le> n \<and> n \<le> 32) \<or> n = 133 \<or> n = 160)"

definition strip :: "string \<Rightarrow> string" where
  "strip s = rev (dropWhile is_space (rev (dropWhile is_space s)))"

text \<open>
  \<open>re.search(r"```(?:json)?\s*([\s\S]*?)\s*```", text)\<close>, as the backtracking matcher
  runs it. \<open>closes_fence\<close> is the tail \<open>\s*```\<close> of the pattern at a position. The lazy
  group takes the fewest characters after which the tail matches. After the opening
  fence the matcher first takes \<open>json\<close> if it is there, then as many white-space
  characters as it can, and gives them back one at a time when the rest fails. The search
  returns group 1 of the leftmost match.
\<close>

definition closes_fence :: "string \<Rightarrow> bool" where
  "closes_fence s = prefix ''```'' (dropWhile is_space s)"

fun lazy_group :: "string \<Rightarrow> string option" where
  "lazy_group [] = None"
| "lazy_group (c # cs) =
     (if closes_fence (c # cs) then Some []
      else map_option ((#) c) (lazy_group cs))"

fun first_some :: "('a \<Rightarrow> 'b option) \<Rightarrow> 'a list \<Rightarrow> 'b option" where
  "first_some f [] = None"
| "first_some f (x # xs) = (case f x of Some y \<Rightarrow> Some y | None \<Rightarrow> first_some f xs)"

definition space_splits :: "string \<Rightarrow> string list" where
  "space_splits s = map (\<lambda>k. drop k s) (rev [0..<Suc (length (takeWhile is_space s))])"

definition fence_body :: "string \<Rightarrow> string option" where
  "fence_body s =
     first_some lazy_group
       ((if prefix ''json'' s then space_splits (drop 4 s) else []) @ space_splits s)"

fun search_fence :: "string \<Rightarrow> string option" where
  "search_fence [] = None"
| "search_fence (c # cs) =
     (case (if prefix ''```'' (c # cs) then fence_body (drop 3 (c # cs)) else None) of
        Some body \<Rightarrow> Some body
      | None \<Rightarrow> search_fence cs)"

text \<open>
  \<open>re.search(r"\{[\s\S]*\}", text)\<close> and its bracket twin: the match runs from the first
  opening character to the last closing character after it, both included.
\<close>

definition search_span :: "char \<Rightarrow> char \<Rightarrow> string \<Rightarrow> string option" where
  "search_span opening closing s =
     (case dropWhile (\<lambda>c. c \<noteq> opening) s of
        [] \<Rightarrow> None
      | c # rest \<Rightarrow>
          (case rev (dropWhile (\<lambda>c. c \<noteq> closing) (rev rest)) of
             [] \<Rightarrow> None
           | inner \<Rightarrow> Some (c # inner)))"

text \<open>
  The function. A fenced block, when found, replaces \<open>text\<close>; the stripped text is
  parsed; on a decode error the two patterns are tried on \<open>text\<close> in turn, a match on
  which the decoder reports a decode error being passed over; at the end \<open>ValueError\<close>
  is raised. Only \<open>JSONDecodeError\<close> is caught: any other exception of \<open>json.loads\<close>
  leaves the function. \<open>scan_patterns\<close> is the \<open>for pattern in [...]\<close> loop.
\<close>

fun scan_patterns ::
  "(string \<Rightarrow> exn + pyval) \<Rightarrow> string \<Rightarrow> (char \<times> char) list \<Rightarrow> exn + pyval" where
  "scan_patterns loads text [] = Inl ValueError"
| "scan_patterns loads text ((opening, closing) # patterns) =
     (case search_span opening closing text of
        None \<Rightarrow> scan_patterns loads text patterns
      | Some m \<Rightarrow>
          (case loads m of
             Inr v \<Rightarrow> Inr v
           | Inl e \<Rightarrow>
               if e = JSONDecodeError then scan_patterns loads text patterns
               else Inl e))"

definition extract_json_from_response :: "(string \<Rightarrow> exn + pyval) \<Rightarrow> string \<Rightarrow> exn + pyval" where
  "extract_json_from_response loads response =
     (let text = (case search_fence response of Some body \<Rightarrow> body | None \<Rightarrow> response) in
      case loads (strip text) of
        Inr v \<Rightarrow> Inr v
      | Inl e \<Rightarrow>
          if e = JSONDecodeError
          then scan_patterns loads text [(CHR ''{'', CHR ''}''), (CHR ''['', CHR '']'')]
          else Inl e)"

text \<open>
  For comparison, the strategy as a list of candidate strings tried in order. The first
  candidate that decodes gives the result; a decode error passes on to the next
  candidate; any other exception ends the attempt; with no candidate left the result is
  \<open>ValueError\<close>. Steps 2 to 4 of the specification on a given text have the candidates
  \<open>layers\<close>: the trimmed text, the object-like substring, the array-like substring.
  The strategy as specified puts the trimmed contents of a fenced block before the
  layers of the entire text.
\<close>

fun parse_first :: "(string \<Rightarrow> exn + pyval) \<Rightarrow> string list \<Rightarrow> exn + pyval" where
  "parse_first loads [] = Inl ValueError"
| "parse_first loads (candidate # candidates) =
     (case loads candidate of
        Inr v \<Rightarrow> Inr v
      | Inl e \<Rightarrow> if e = JSONDecodeError then parse_first loads candidates else Inl e)"

definition layers :: "string \<Rightarrow> string list" where
  "layers text =
     strip text #
     (case search_span (CHR ''{'') (CHR ''}'') text of Some m \<Rightarrow> [m] | None \<Rightarrow> []) @
     (case search_span (CHR ''['') (CHR '']'') text of Some m \<Rightarrow> [m] | None \<Rightarrow> [])"

definition parse_then_scan :: "(string \<Rightarrow> exn + pyval) \<Rightarrow> string \<Rightarrow> exn + pyval" where
  "parse_then_scan loads text = parse_first loads (layers text)"

definition extraction_as_specified :: "(string \<Rightarrow> exn + pyval) \<Rightarrow> string \<Rightarrow> exn + pyval" where
  "extraction_as_specified loads text =
     parse_first loads
       ((case search_fence text of Some body \<Rightarrow> [strip body] | None \<Rightarrow> []) @ layers text)"


subsection \<open>convert_to_driftmoney_format\<close>

text \<open>
  The pydantic models. Field names shared between models carry the model's name; the
  fields the function never passes (the notes, the sync status) hold the class defaults.
\<close>

record Transaction =
  tx_id :: string
  tx_description :: string
  tx_amount :: pyfloat
  tx_type :: string
  tx_date :: string
  tx_category :: "string option"

record Bill =
  bill_id :: string
  bill_name :: string
  bill_amount :: pyfloat
  dueDay :: int
  isPaid :: bool
  billMonth :: string
  bill_syncStatus :: string

record Debt =
  debt_id :: string
  company :: string
  balance :: pyfloat
  lastUpdated :: string
  debt_notes :: "string option"
  debt_syncStatus :: string
  isRecurring :: bool
  paymentDueDay :: "int option"
  paymentFrequency :: "string option"
  minimumPayment :: "pyfloat option"

text \<open>
  \<open>ParseResult\<close>. The \<open>error\<close> text is \<open>"Conversion error: "\<close> followed by the
  exception's own message; the model keeps the exception.
\<close>

record ParseResult =
  success :: bool
  document_type :: string
  transactions :: "Transaction list"
  bills :: "Bill list"
  debts :: "Debt list"
  raw_text :: "string option"
  error :: "exn option"

fun DocumentType_value :: "DocumentType \<Rightarrow> string" where
  "DocumentType_value BANK_STATEMENT = ''bank_statement''"
| "DocumentType_value CREDIT_CARD = ''credit_card''"
| "DocumentType_value BILL = ''bill''"
| "DocumentType_value LOAN = ''loan''"
| "DocumentType_value AUTO = ''auto''"

text \<open>
  What the function takes from outside the repository and the model does not fix:
  \<open>float\<close> and \<open>int\<close> of a string (\<open>None\<close> for \<open>ValueError\<close>); what the installed
  pydantic does with a value that is not of the field's type (\<open>None\<close> when it rejects
  it); the identifiers \<open>uuid.uuid4()\<close> hands out, by the number of the draw; and the
  clock, read as \<open>%Y-%m-%d\<close> and as \<open>%Y-%m\<close>.
\<close>

record library =
  float_of_str :: "string \<Rightarrow> pyfloat option"
  int_of_str :: "string \<Rightarrow> int option"
  coerce_str :: "pyval \<Rightarrow> string option"
  coerce_int :: "pyval \<Rightarrow> int option"
  coerce_float :: "pyval \<Rightarrow> pyfloat option"
  uuid4 :: "nat \<Rightarrow> string"
  today :: string
  current_month :: string

text \<open>
  \<open>float(n)\<close> of an \<open>int\<close>: the nearest double, ties to even, on 53 bits;
  \<open>OverflowError\<close> from \<open>2 ^ 1024\<close> on.
\<close>

function bit_length :: "int \<Rightarrow> nat" where
  "bit_length n = (if n \<le> 0 then 0 else Suc (bit_length (n div 2)))"
  by pat_completeness auto
termination
  by (relation "measure nat") auto

declare bit_length.simps [simp del]

definition float_of_int :: "int \<Rightarrow> exn + pyfloat" where
  "float_of_int n =
     (let a = \<bar>n\<bar>;
          e = bit_length a - 53;
          q = a div 2 ^ e;
          r = a mod 2 ^ e;
          q' = (if 2 * r > 2 ^ e \<or> (2 * r = 2 ^ e \<and> odd q) then q + 1 else q);
          v = q' * 2 ^ e
      in if v \<ge> 2 ^ 1024 then Inl OverflowError
         else Inr (Finite (of_int (sgn n * v))))"

text \<open>\<open>float(x)\<close> and \<open>int(x)\<close> on a decoded value; a \<open>bool\<close> is an \<open>int\<close>.\<close>

fun py_float :: "library \<Rightarrow> pyval \<Rightarrow> exn + pyfloat" where
  "py_float lib (PFloat f) = Inr f"
| "py_float lib (PInt n) = float_of_int n"
| "py_float lib (PBool b) = Inr (Finite (if b then 1 else 0))"
| "py_float lib (PStr s) =
     (case float_of_str lib s of Some f \<Rightarrow> Inr f | None \<Rightarrow> Inl ValueError)"
| "py_float lib _ = Inl TypeError"

fun py_int :: "library \<Rightarrow> pyval \<Rightarrow> exn + int" where
  "py_int lib (PInt n) = Inr n"
| "py_int lib (PBool b) = Inr (if b then 1 else 0)"
| "py_int lib (PFloat (Finite r)) = Inr (if r \<ge> 0 then \<lfloor>r\<rfloor> else \<lceil>r\<rceil>)"
| "py_int lib (PFloat (Infinity negative)) = Inl OverflowError"
| "py_int lib (PFloat NaN) = Inl ValueError"
| "py_int lib (PStr s) =
     (case int_of_str lib s of Some n \<Rightarrow> Inr n | None \<Rightarrow> Inl ValueError)"
| "py_int lib _ = Inl TypeError"

text \<open>
  \<open>for tx in x\<close>: the items of a list, the keys of a dict, the characters of a string;
  nothing else can be iterated.
\<close>

fun py_iter :: "pyval \<Rightarrow> exn + pyval list" where
  "py_iter (PList xs) = Inr xs"
| "py_iter (PDict items) = Inr (map (\<lambda>(k, v). PStr k) items)"
| "py_iter (PStr s) = Inr (map (\<lambda>c. PStr [c]) s)"
| "py_iter _ = Inl TypeError"

text \<open>
  Field validation. A value of the field's type is taken as it is and \<open>None\<close> is
  refused by a field that is not optional; for the rest the library decides.
\<close>

fun validate_str :: "library \<Rightarrow> pyval \<Rightarrow> exn + string" where
  "validate_str lib (PStr s) = Inr s"
| "validate_str lib PNone = Inl ValidationError"
| "validate_str lib v =
     (case coerce_str lib v of Some s \<Rightarrow> Inr s | None \<Rightarrow> Inl ValidationError)"

fun validate_optional_str :: "library \<Rightarrow> pyval \<Rightarrow> exn + string option" where
  "validate_optional_str lib PNone = Inr None"
| "validate_optional_str lib v =
     (case validate_str lib v of Inr s \<Rightarrow> Inr (Some s) | Inl e \<Rightarrow> Inl e)"

fun validate_optional_int :: "library \<Rightarrow> pyval \<Rightarrow> exn + int option" where
  "validate_optional_int lib PNone = Inr None"
| "validate_optional_int lib (PInt n) = Inr (Some n)"
| "validate_optional_int lib v =
     (case coerce_int lib v of Some n \<Rightarrow> Inr (Some n) | None \<Rightarrow> Inl ValidationError)"

fun validate_optional_float :: "library \<Rightarrow> pyval \<Rightarrow> exn + pyfloat option" where
  "validate_optional_float lib PNone = Inr None"
| "validate_optional_float lib (PFloat f) = Inr (Some f)"
| "validate_optional_float lib v =
     (case coerce_float lib v of Some f \<Rightarrow> Inr (Some f) | None \<Rightarrow> Inl ValidationError)"

text \<open>Sequencing: the first exception ends the evaluation.\<close>

definition and_then :: "exn + 'a \<Rightarrow> ('a \<Rightarrow> exn + 'b) \<Rightarrow> exn + 'b" where
  "and_then r f = (case r of Inl e \<Rightarrow> Inl e | Inr x \<Rightarrow> f x)"

text \<open>
  \<open>Transaction(id=generate_uuid(), description=tx.get("description", "Unknown"), ...)\<close>:
  the arguments in their order, then the validation of the model. \<open>n\<close> is the number
  of identifiers drawn before.
\<close>

definition make_transaction :: "library \<Rightarrow> nat \<Rightarrow> pyval \<Rightarrow> exn + Transaction" where
  "make_transaction lib n tx =
     and_then (py_get tx ''description'' (PStr ''Unknown'')) (\<lambda>description.
     and_then (py_get tx ''amount'' (PInt 0)) (\<lambda>amount_value.
     and_then (py_float lib amount_value) (\<lambda>amount.
     and_then (py_get tx ''type'' (PStr ''expense'')) (\<lambda>type_value.
     and_then (py_get tx ''date'' (PStr (today lib))) (\<lambda>date_value.
     and_then (py_get tx ''category'' PNone) (\<lambda>category.
     and_then (validate_str lib description) (\<lambda>description'.
     and_then (validate_str lib type_value) (\<lambda>type'.
     and_then (validate_str lib date_value) (\<lambda>date'.
     and_then (validate_optional_str lib category) (\<lambda>category'.
       Inr \<lparr>tx_id = uuid4 lib n, tx_description = description', tx_amount = amount,
            tx_type = type', tx_date = date', tx_category = category'\<rparr>))))))))))"

text \<open>
  The two \<open>Debt(...)\<close> calls: under \<open>CREDIT_CARD\<close> the frequency is the constant
  \<open>"monthly"\<close>, under \<open>LOAN\<close> it is read from the payload with that default.
\<close>

definition make_credit_card_debt :: "library \<Rightarrow> nat \<Rightarrow> pyval \<Rightarrow> exn + Debt" where
  "make_credit_card_debt lib n debt_info =
     and_then (py_get debt_info ''company'' (PStr ''Credit Card'')) (\<lambda>company_value.
     and_then (py_get debt_info ''balance'' (PInt 0)) (\<lambda>balance_value.
     and_then (py_float lib balance_value) (\<lambda>balance'.
     and_then (py_get debt_info ''paymentDueDay'' PNone) (\<lambda>due_value.
     and_then (py_get debt_info ''minimumPayment'' PNone) (\<lambda>minimum_value.
     and_then (validate_str lib company_value) (\<lambda>company'.
     and_then (validate_optional_int lib due_value) (\<lambda>due'.
     and_then (validate_optional_str lib (PStr ''monthly'')) (\<lambda>frequency'.
     and_then (validate_optional_float lib minimum_value) (\<lambda>minimum'.
       Inr \<lparr>debt_id = uuid4 lib n, company = company', balance = balance',
            lastUpdated = today lib, debt_notes = None, debt_syncStatus = ''dirty'',
            isRecurring = True, paymentDueDay = due', paymentFrequency = frequency',
            minimumPayment = minimum'\<rparr>)))))))))"

definition make_loan_debt :: "library \<Rightarrow> nat \<Rightarrow> pyval \<Rightarrow> exn + Debt" where
  "make_loan_debt lib n debt_info =
     and_then (py_get debt_info ''company'' (PStr ''Loan'')) (\<lambda>company_value.
     and_then (py_get debt_info ''balance'' (PInt 0)) (\<lambda>balance_value.
     and_then (py_float lib balance_value) (\<lambda>balance'.
     and_then (py_get debt_info ''paymentDueDay'' PNone) (\<lambda>due_value.
     and_then (py_get debt_info ''paymentFrequency'' (PStr ''monthly'')) (\<lambda>frequency_value.
     and_then (py_get debt_info ''minimumPayment'' PNone) (\<lambda>minimum_value.
     and_then (validate_str lib company_value) (\<lambda>company'.
     and_then (validate_optional_int lib due_value) (\<lambda>due'.
     and_then (validate_optional_str lib frequency_value) (\<lambda>frequency'.
     and_then (validate_optional_float lib minimum_value) (\<lambda>minimum'.
       Inr \<lparr>debt_id = uuid4 lib n, company = company', balance = balance',
            lastUpdated = today lib, debt_notes = None, debt_syncStatus = ''dirty'',
            isRecurring = True, paymentDueDay = due', paymentFrequency = frequency',
            minimumPayment = minimum'\<rparr>))))))))))"

definition make_bill :: "library \<Rightarrow> nat \<Rightarrow> pyval \<Rightarrow> exn + Bill" where
  "make_bill lib n bill_info =
     and_then (py_get bill_info ''name'' (PStr ''Bill'')) (\<lambda>name_value.
     and_then (py_get bill_info ''amount'' (PInt 0)) (\<lambda>amount_value.
     and_then (py_float lib amount_value) (\<lambda>amount.
     and_then (py_get bill_info ''dueDay'' (PInt 1)) (\<lambda>due_value.
     and_then (py_int lib due_value) (\<lambda>due.
     and_then (py_get bill_info ''billMonth'' (PStr (current_month lib))) (\<lambda>month_value.
     and_then (validate_str lib name_value) (\<lambda>name'.
     and_then (validate_str lib month_value) (\<lambda>month'.
       Inr \<lparr>bill_id = uuid4 lib n, bill_name = name', bill_amount = amount,
            dueDay = due, isPaid = False, billMonth = month',
            bill_syncStatus = ''dirty''\<rparr>))))))))"

text \<open>
  The body of the \<open>try\<close>, on the result object it mutates: it returns the exception that
  ended it, if any, and the object as the statements run so far have left it.
  \<open>append_transactions\<close> is the loop \<open>for tx in ...: result.transactions.append(...)\<close>.
\<close>

fun append_transactions ::
  "library \<Rightarrow> pyval list \<Rightarrow> ParseResult \<Rightarrow> exn option \<times> ParseResult" where
  "append_transactions lib [] result = (None, result)"
| "append_transactions lib (tx # rest) result =
     (case make_transaction lib (length (transactions result)) tx of
        Inl e \<Rightarrow> (Some e, result)
      | Inr t \<Rightarrow>
          append_transactions lib rest
            (result\<lparr>transactions := transactions result @ [t]\<rparr>))"

definition payload_entries :: "pyval \<Rightarrow> exn + pyval list" where
  "payload_entries parsed_data =
     and_then (py_get parsed_data ''transactions'' (PList [])) py_iter"

definition convert_transactions ::
  "library \<Rightarrow> pyval \<Rightarrow> ParseResult \<Rightarrow> exn option \<times> ParseResult" where
  "convert_transactions lib parsed_data result =
     (case payload_entries parsed_data of
        Inl e \<Rightarrow> (Some e, result)
      | Inr entries \<Rightarrow> append_transactions lib entries result)"

definition try_body ::
  "library \<Rightarrow> pyval \<Rightarrow> DocumentType \<Rightarrow> ParseResult \<Rightarrow> exn option \<times> ParseResult" where
  "try_body lib parsed_data doc_type result =
     (if doc_type = BANK_STATEMENT then convert_transactions lib parsed_data result
      else if doc_type = CREDIT_CARD then
        (case convert_transactions lib parsed_data result of
           (Some e, result') \<Rightarrow> (Some e, result')
         | (None, result') \<Rightarrow>
             (case py_get parsed_data ''debt'' (PDict []) of
                Inl e \<Rightarrow> (Some e, result')
              | Inr debt_info \<Rightarrow>
                  if py_truthy debt_info then
                    (case make_credit_card_debt lib (length (transactions result')) debt_info of
                       Inl e \<Rightarrow> (Some e, result')
                     | Inr d \<Rightarrow> (None, result'\<lparr>debts := debts result' @ [d]\<rparr>))
                  else (None, result')))
      else if doc_type = BILL then
        (case py_get parsed_data ''bill'' (PDict []) of
           Inl e \<Rightarrow> (Some e, result)
         | Inr bill_info \<Rightarrow>
             if py_truthy bill_info then
               (case make_bill lib 0 bill_info of
                  Inl e \<Rightarrow> (Some e, result)
                | Inr b \<Rightarrow> (None, result\<lparr>bills := bills result @ [b]\<rparr>))
             else (None, result))
      else if doc_type = LOAN then
        (case py_get parsed_data ''debt'' (PDict []) of
           Inl e \<Rightarrow> (Some e, result)
         | Inr debt_info \<Rightarrow>
             if py_truthy debt_info then
               (case make_loan_debt lib 0 debt_info of
                  Inl e \<Rightarrow> (Some e, result)
                | Inr d \<Rightarrow> (None, result\<lparr>debts := debts result @ [d]\<rparr>))
             else (None, result))
      else (None, result))"

text \<open>
  The function: the fresh result, the \<open>try\<close> body, and the handler, which sets
  \<open>success\<close> and \<open>error\<close> on the object as the body left it.
\<close>

definition convert_to_driftmoney_format :: "library \<Rightarrow> pyval \<Rightarrow> DocumentType \<Rightarrow> ParseResult" where
  "convert_to_driftmoney_format lib parsed_data doc_type =
     (let result = \<lparr>success = True, document_type = DocumentType_value doc_type,
                     transactions = [], bills = [], debts = [],
                     raw_text = None, error = None\<rparr>
      in case try_body lib parsed_data doc_type result of
           (None, result') \<Rightarrow> result'
         | (Some e, result') \<Rightarrow> result'\<lparr>success := False, error := Some e\<rparr>)"

text \<open>The result object as the function creates it, before the \<open>try\<close>.\<close>

definition fresh_result :: "DocumentType \<Rightarrow> ParseResult" where
  "fresh_result doc_type =
     \<lparr>success = True, document_type = DocumentType_value doc_type,
      transactions = [], bills = [], debts = [], raw_text = None, error = None\<rparr>"



text \<open>
  For the statements about a failed conversion: the records of the longest run of leading
  entries that convert, the first of them drawing identifier number \<open>n\<close>.
\<close>

fun converted_prefix :: "library \<Rightarrow> nat \<Rightarrow> pyval list \<Rightarrow> Transaction list" where
  "converted_prefix lib n [] = []"
| "converted_prefix lib n (tx # rest) =
     (case make_transaction lib n tx of
        Inl e \<Rightarrow> []
      | Inr t \<Rightarrow> t # converted_prefix lib (Suc n) rest)"

text \<open>
  A library for the worked examples: it refuses every coercion that is the library's to
  decide and converts no string to a number. The examples use no payload that asks for
  either.
\<close>

definition example_library :: library where
  "example_library =
     \<lparr>float_of_str = (\<lambda>s. None), int_of_str = (\<lambda>s. None),
      coerce_str = (\<lambda>v. None), coerce_int = (\<lambda>v. None), coerce_float = (\<lambda>v. None),
      uuid4 = (\<lambda>n. ''uuid-'' @ replicate n (CHR ''i'')),
      today = ''2026-01-15'', current_month = ''2026-01''\<rparr>"


section \<open>Properties of the truncation\<close>

lemma split_lines_nonempty: "split_lines s \<noteq> []"
  by (induction s) (auto split: list.splits)

lemma join_split_lines: "join_lines (split_lines s) = s"
proof (induction s)
  case Nil
  show ?case by simp
next
  case (Cons c cs)
  obtain l ls where s: "split_lines cs = l # ls"
    using split_lines_nonempty [of cs] by (cases "split_lines cs") auto
  show ?case
  proof (cases "c = CHR 0x0A")
    case True
    with Cons s show ?thesis by simp
  next
    case False
    with Cons s show ?thesis by (cases ls) auto
  qed
qed

lemma join_lines_append:
  "rest \<noteq> [] \<Longrightarrow> join_lines (kept @ rest) = with_separators kept @ join_lines rest"
proof (induction kept)
  case Nil
  show ?case by (simp add: with_separators_def)
next
  case (Cons k ks)
  then have "ks @ rest \<noteq> []" by simp
  then obtain x xs where "ks @ rest = x # xs" by (cases "ks @ rest") auto
  with Cons show ?case by (simp add: with_separators_def)
qed

lemma length_with_separators:
  "int (length (with_separators ls)) = (\<Sum>l\<leftarrow>ls. int (length l) + 1)"
  by (induction ls) (simp_all add: with_separators_def)

lemma with_separators_join:
  "ls \<noteq> [] \<Longrightarrow> with_separators ls = join_lines ls @ [CHR 0x0A]"
  by (induction ls rule: join_lines.induct) (simp_all add: with_separators_def)

lemma sum_split_lines: "(\<Sum>l\<leftarrow>split_lines s. int (length l) + 1) = int (length s) + 1"
proof -
  have "with_separators (split_lines s) = s @ [CHR 0x0A]"
    using with_separators_join [OF split_lines_nonempty, of s]
    by (simp add: join_split_lines)
  then have "int (length (with_separators (split_lines s))) = int (length s) + 1"
    by simp
  then show ?thesis by (simp only: length_with_separators)
qed

lemma truncate_loop_acc:
  "truncate_loop m acc cc ls = acc @ truncate_loop m [] cc ls"
proof (induction ls arbitrary: acc cc)
  case Nil
  show ?case by simp
next
  case (Cons l ls)
  show ?case
    using Cons.IH [of "acc @ [l]"] Cons.IH [of "[l]"] by simp
qed

text \<open>
  When the lines do not all fit, the loop keeps a run of leading lines, stops at a line
  that is still there, and appends the marker; the kept lines fit the budget.
\<close>

lemma truncate_loop_break:
  assumes "cc + (\<Sum>l\<leftarrow>ls. int (length l) + 1) > m" and "ls \<noteq> []"
  shows "\<exists>kept rest. ls = kept @ rest \<and> rest \<noteq> [] \<and>
           truncate_loop m [] cc ls = kept @ [sentinel] \<and>
           (kept = [] \<or> cc + (\<Sum>l\<leftarrow>kept. int (length l) + 1) \<le> m)"
  using assms
proof (induction ls arbitrary: cc)
  case Nil
  then show ?case by simp
next
  case (Cons l ls)
  show ?case
  proof (cases "cc + int (length l) + 1 > m")
    case True
    then have "truncate_loop m [] cc (l # ls) = [] @ [sentinel]" by simp
    then show ?thesis by blast
  next
    case False
    let ?cc = "cc + int (length l) + 1"
    have run: "truncate_loop m [] cc (l # ls) = l # truncate_loop m [] ?cc ls"
      using False truncate_loop_acc [of m "[l]" ?cc ls] by simp
    from Cons.prems False have over: "?cc + (\<Sum>l\<leftarrow>ls. int (length l) + 1) > m"
      by simp
    with False have "ls \<noteq> []" by auto
    from Cons.IH [OF over this] obtain kept rest where
      k: "ls = kept @ rest" "rest \<noteq> []" "truncate_loop m [] ?cc ls = kept @ [sentinel]"
         "kept = [] \<or> ?cc + (\<Sum>l\<leftarrow>kept. int (length l) + 1) \<le> m"
      by blast
    have "l # ls = (l # kept) @ rest" using k(1) by simp
    moreover have "truncate_loop m [] cc (l # ls) = (l # kept) @ [sentinel]"
      using run k(3) by simp
    moreover have "cc + (\<Sum>l\<leftarrow>l # kept. int (length l) + 1) \<le> m"
      using k(4) False by auto
    ultimately show ?thesis using k(2) by blast
  qed
qed

lemma truncate_over_budget:
  assumes "int (length s) > m"
  shows "\<exists>kept rest. split_lines s = kept @ rest \<and> rest \<noteq> [] \<and>
           truncate_text_for_context s m = with_separators kept @ sentinel \<and>
           s = with_separators kept @ join_lines rest \<and>
           (kept = [] \<or> int (length (with_separators kept)) \<le> m)"
proof -
  have "0 + (\<Sum>l\<leftarrow>split_lines s. int (length l) + 1) > m"
    using assms by (simp add: sum_split_lines)
  from truncate_loop_break [OF this split_lines_nonempty] obtain kept rest where
    k: "split_lines s = kept @ rest" "rest \<noteq> []"
       "truncate_loop m [] 0 (split_lines s) = kept @ [sentinel]"
       "kept = [] \<or> 0 + (\<Sum>l\<leftarrow>kept. int (length l) + 1) \<le> m"
    by blast
  have "truncate_text_for_context s m = join_lines (kept @ [sentinel])"
    using assms k(3) by (simp add: truncate_text_for_context_def)
  then have out: "truncate_text_for_context s m = with_separators kept @ sentinel"
    by (simp add: join_lines_append)
  have "s = join_lines (kept @ rest)"
    using k(1) join_split_lines [of s] by simp
  then have src: "s = with_separators kept @ join_lines rest"
    using k(2) by (simp add: join_lines_append)
  have "kept = [] \<or> int (length (with_separators kept)) \<le> m"
    using k(4) by (simp add: length_with_separators)
  with k(1,2) out src show ?thesis by blast
qed

text \<open>
  What does hold of the length: the marker's 47 characters come on top of the budget.
\<close>

lemma truncate_length_with_marker:
  "int (length (truncate_text_for_context s m)) \<le> max m 0 + 47"
proof (cases "int (length s) \<le> m")
  case True
  then show ?thesis by (simp add: truncate_text_for_context_def)
next
  case False
  then have "int (length s) > m" by simp
  from truncate_over_budget [OF this] obtain kept where
    k: "truncate_text_for_context s m = with_separators kept @ sentinel"
       "kept = [] \<or> int (length (with_separators kept)) \<le> m"
    by blast
  have "length sentinel = 47" by (simp add: sentinel_def)
  with k show ?thesis by (auto simp: with_separators_def)
qed

text \<open>
  C2. The claim: for every text and every budget the returned string, marker included, is
  at most \<open>max_chars\<close> long. The code counts the kept lines against the budget and
  then appends the marker uncounted: a text of 20 characters with a budget of 10 comes
  back as the marker alone, 47 characters, longer than the budget and than the text.
\<close>

theorem truncate_text_for_context_exceeds_budget:
  "truncate_text_for_context ''aaaaaaaaaaaaaaaaaaaa'' 10 = sentinel \<and>
   length (truncate_text_for_context ''aaaaaaaaaaaaaaaaaaaa'' 10) = 47 \<and>
   \<not> int (length (truncate_text_for_context ''aaaaaaaaaaaaaaaaaaaa'' 10)) \<le> 10"
  by (simp add: truncate_text_for_context_def sentinel_def)

text \<open>
  Under any budget, negative ones included: a text within the budget is returned
  unchanged; otherwise the result is some content followed by the marker, the content is a
  prefix of the text, and the prefix is strict whenever the text is not empty.
\<close>

lemma truncate_prefix_any_budget:
  "(int (length s) \<le> m \<longrightarrow> truncate_text_for_context s m = s) \<and>
   (m < int (length s) \<longrightarrow>
      (\<exists>content. truncate_text_for_context s m = content @ sentinel \<and>
                 prefix content s \<and>
                 (s \<noteq> [] \<longrightarrow> strict_prefix content s)))"
proof (intro conjI impI)
  assume "int (length s) \<le> m"
  then show "truncate_text_for_context s m = s"
    by (simp add: truncate_text_for_context_def)
next
  assume over: "m < int (length s)"
  from truncate_over_budget [OF over] obtain kept rest where
    k: "truncate_text_for_context s m = with_separators kept @ sentinel"
       "s = with_separators kept @ join_lines rest"
       "kept = [] \<or> int (length (with_separators kept)) \<le> m"
    by blast
  have p: "prefix (with_separators kept) s"
    using k(2) by (metis prefixI)
  have "s \<noteq> [] \<longrightarrow> with_separators kept \<noteq> s"
  proof (cases "kept = []")
    case True
    then show ?thesis by (auto simp: with_separators_def)
  next
    case False
    with k(3) over show ?thesis by auto
  qed
  with p have "s \<noteq> [] \<longrightarrow> strict_prefix (with_separators kept) s"
    by (simp add: strict_prefix_def)
  with k(1) p show "\<exists>content. truncate_text_for_context s m = content @ sentinel \<and>
                 prefix content s \<and> (s \<noteq> [] \<longrightarrow> strict_prefix content s)"
    by blast
qed

text \<open>
  C5. For every text and every budget, a text whose length is at most the budget is
  returned unchanged. For every text over a budget that is a count of characters (not
  negative), the result is some content followed by the marker, and the content, which is
  the result with the marker removed, is a strict prefix of the text.
\<close>

theorem truncate_text_for_context_prefix:
  "(int (length text) \<le> max_chars \<longrightarrow> truncate_text_for_context text max_chars = text) \<and>
   (0 \<le> max_chars \<and> max_chars < int (length text) \<longrightarrow>
      (\<exists>content. truncate_text_for_context text max_chars = content @ sentinel \<and>
                 strict_prefix content text))"
proof (intro conjI impI)
  assume "int (length text) \<le> max_chars"
  with truncate_prefix_any_budget [of "text" max_chars]
  show "truncate_text_for_context text max_chars = text"
    by simp
next
  assume h: "0 \<le> max_chars \<and> max_chars < int (length text)"
  then have "text \<noteq> []" by auto
  with h truncate_prefix_any_budget [of "text" max_chars]
  show "\<exists>content. truncate_text_for_context text max_chars = content @ sentinel \<and>
                 strict_prefix content text"
    by auto
qed

theorem truncate_text_for_context_prefix_witness:
  "int (length ''ab'') \<le> 5 \<and> truncate_text_for_context ''ab'' 5 = ''ab'' \<and>
   (0::int) \<le> 4 \<and> 4 < int (length ''ab\<newline>cd\<newline>ef'') \<and>
   truncate_text_for_context ''ab\<newline>cd\<newline>ef'' 4 = ''ab\<newline>'' @ sentinel \<and>
   strict_prefix ''ab\<newline>'' ''ab\<newline>cd\<newline>ef''"
  using truncate_text_for_context_prefix [of "''ab''" 5]
    truncate_text_for_context_prefix [of "''ab\<newline>cd\<newline>ef''" 4]
  by (simp add: truncate_text_for_context_def)


section \<open>Properties of the classifier\<close>

text \<open>The executable containment test is the usual notion of a contiguous sublist.\<close>

lemma str_contains_sublist: "str_contains t s \<longleftrightarrow> sublist t s"
  by (induction s) (auto simp: sublist_Cons_right)

lemma any_term_iff:
  "list_ex (\<lambda>t. str_contains t s) ts \<longleftrightarrow> (\<exists>t\<in>set ts. sublist t s)"
  by (simp add: list_ex_iff str_contains_sublist)


lemma detect_document_type_cases:
  "detect_document_type s =
     (if \<exists>t\<in>set credit_card_terms. sublist t (lower s) then CREDIT_CARD
      else if \<exists>t\<in>set loan_terms. sublist t (lower s) then LOAN
      else if \<exists>t\<in>set bill_terms. sublist t (lower s) then BILL
      else BANK_STATEMENT)"
  by (simp add: detect_document_type_def Let_def any_term_iff)

text \<open>
  C3. The classifier returns a category for every transcript, never \<open>AUTO\<close>. A
  credit-card keyword in the lower-cased transcript gives \<open>CREDIT_CARD\<close> whatever else
  matches; without one, a loan keyword gives \<open>LOAN\<close>; without either, a bill keyword
  gives \<open>BILL\<close>; with no keyword at all the result is \<open>BANK_STATEMENT\<close>.
\<close>

theorem detect_document_type_priority:
  "detect_document_type text \<noteq> AUTO \<and>
   ((\<exists>t\<in>set credit_card_terms. sublist t (lower text)) \<longrightarrow>
      detect_document_type text = CREDIT_CARD) \<and>
   (\<not> (\<exists>t\<in>set credit_card_terms. sublist t (lower text)) \<and>
    (\<exists>t\<in>set loan_terms. sublist t (lower text)) \<longrightarrow>
      detect_document_type text = LOAN) \<and>
   (\<not> (\<exists>t\<in>set credit_card_terms. sublist t (lower text)) \<and>
    \<not> (\<exists>t\<in>set loan_terms. sublist t (lower text)) \<and>
    (\<exists>t\<in>set bill_terms. sublist t (lower text)) \<longrightarrow>
      detect_document_type text = BILL) \<and>
   (\<not> (\<exists>t\<in>set credit_card_terms. sublist t (lower text)) \<and>
    \<not> (\<exists>t\<in>set loan_terms. sublist t (lower text)) \<and>
    \<not> (\<exists>t\<in>set bill_terms. sublist t (lower text)) \<longrightarrow>
      detect_document_type text = BANK_STATEMENT)"
  by (simp add: detect_document_type_cases)

theorem detect_document_type_priority_witness:
  "detect_document_type ''Minimum Payment Due on your mortgage: Electric'' = CREDIT_CARD \<and>
   detect_document_type ''Mortgage Escrow for Water Bill'' = LOAN \<and>
   detect_document_type ''Meter Reading 1200 kWh'' = BILL \<and>
   detect_document_type ''Deposit 100.00'' = BANK_STATEMENT"
proof -
  have c1: "\<exists>t\<in>set credit_card_terms.
              sublist t (lower ''Minimum Payment Due on your mortgage: Electric'')"
    by (simp add: lower_def is_upper_def credit_card_terms_def flip: str_contains_sublist)
  have c2: "\<not> (\<exists>t\<in>set credit_card_terms. sublist t (lower ''Mortgage Escrow for Water Bill''))"
    by (simp add: lower_def is_upper_def credit_card_terms_def flip: str_contains_sublist)
  have l2: "\<exists>t\<in>set loan_terms. sublist t (lower ''Mortgage Escrow for Water Bill'')"
    by (simp add: lower_def is_upper_def loan_terms_def flip: str_contains_sublist)
  have c3: "\<not> (\<exists>t\<in>set credit_card_terms. sublist t (lower ''Meter Reading 1200 kWh''))"
    by (simp add: lower_def is_upper_def credit_card_terms_def flip: str_contains_sublist)
  have l3: "\<not> (\<exists>t\<in>set loan_terms. sublist t (lower ''Meter Reading 1200 kWh''))"
    by (simp add: lower_def is_upper_def loan_terms_def flip: str_contains_sublist)
  have b3: "\<exists>t\<in>set bill_terms. sublist t (lower ''Meter Reading 1200 kWh'')"
    by (simp add: lower_def is_upper_def bill_terms_def flip: str_contains_sublist)
  have c4: "\<not> (\<exists>t\<in>set credit_card_terms. sublist t (lower ''Deposit 100.00''))"
    by (simp add: lower_def is_upper_def credit_card_terms_def flip: str_contains_sublist)
  have l4: "\<not> (\<exists>t\<in>set loan_terms. sublist t (lower ''Deposit 100.00''))"
    by (simp add: lower_def is_upper_def loan_terms_def flip: str_contains_sublist)
  have b4: "\<not> (\<exists>t\<in>set bill_terms. sublist t (lower ''Deposit 100.00''))"
    by (simp add: lower_def is_upper_def bill_terms_def flip: str_contains_sublist)
  have "detect_document_type ''Minimum Payment Due on your mortgage: Electric'' = CREDIT_CARD"
    using detect_document_type_priority [of "''Minimum Payment Due on your mortgage: Electric''"]
      c1 by (simp only: simp_thms)
  moreover have "detect_document_type ''Mortgage Escrow for Water Bill'' = LOAN"
    using detect_document_type_priority [of "''Mortgage Escrow for Water Bill''"]
      c2 l2 by (simp only: simp_thms)
  moreover have "detect_document_type ''Meter Reading 1200 kWh'' = BILL"
    using detect_document_type_priority [of "''Meter Reading 1200 kWh''"]
      c3 l3 b3 by (simp only: simp_thms)
  moreover have "detect_document_type ''Deposit 100.00'' = BANK_STATEMENT"
    using detect_document_type_priority [of "''Deposit 100.00''"]
      c4 l4 b4 by (simp only: simp_thms)
  ultimately show ?thesis by (simp only: simp_thms)
qed





section \<open>Properties of the stream aggregation\<close>

lemma aggregate_lines_read:
  "\<forall>line\<in>set (lines_read loads lines). readable loads line \<Longrightarrow>
   aggregate_lines loads acc lines =
     Inr (acc @ concat (map chunk_fragment (parsed_chunks loads (lines_read loads lines))))"
proof (induction lines arbitrary: acc)
  case Nil
  show ?case by (simp add: parsed_chunks_def)
next
  case (Cons line lines)
  show ?case
  proof (cases "line = []")
    case True
    with Cons show ?thesis by (simp add: parsed_chunks_def completes_def)
  next
    case False
    from Cons.prems have r: "readable loads line"
      by (simp split: if_splits)
    show ?thesis
    proof (cases "loads line")
      case (Inl e)
      with r False have "e = JSONDecodeError"
        by (simp add: readable_def)
      with Inl False Cons show ?thesis
        by (simp add: parsed_chunks_def completes_def)
    next
      case (Inr chunk)
      with r False have wf: "well_formed_chunk chunk"
        by (simp add: readable_def)
      then obtain items where c: "chunk = PDict items"
        by (cases chunk) auto
      show ?thesis
      proof (cases "chunk_done chunk")
        case True
        with wf c False Inr show ?thesis
          by (auto simp: parsed_chunks_def completes_def split: option.splits pyval.splits)
      next
        case d: False
        with False Inr have nc: "\<not> completes loads line"
          by (simp add: completes_def)
        with Cons.prems have "\<forall>line\<in>set (lines_read loads lines). readable loads line"
          by simp
        from Cons.IH [OF this] wf c False Inr nc d show ?thesis
          by (auto simp: parsed_chunks_def split: option.splits pyval.splits)
      qed
    qed
  qed
qed

text \<open>
  A line on which the decoder reports a decode error changes nothing, whatever the other
  lines are.
\<close>

lemma aggregate_lines_skip:
  "loads bad = Inl JSONDecodeError \<Longrightarrow>
   aggregate_lines loads acc (before @ bad # after) = aggregate_lines loads acc (before @ after)"
  by (induction before arbitrary: acc) (auto split: sum.splits)

text \<open>
  A line on which the decoder raises anything else ends the function with that exception,
  when the lines before it are readable and none of them completes the stream.
\<close>

lemma aggregate_lines_abort:
  assumes "\<forall>line\<in>set before. readable loads line \<and> \<not> completes loads line"
    and "bad \<noteq> []" and "loads bad = Inl e" and "e \<noteq> JSONDecodeError"
  shows "aggregate_lines loads acc (before @ bad # after) = Inl e"
  using assms(1)
proof (induction before arbitrary: acc)
  case Nil
  from assms(2-4) show ?case by simp
next
  case (Cons line lines)
  then have r: "readable loads line" and nc: "\<not> completes loads line"
    and rest: "\<forall>line\<in>set lines. readable loads line \<and> \<not> completes loads line"
    by simp_all
  show ?case
  proof (cases "line = []")
    case True
    with Cons.IH [OF rest] show ?thesis by simp
  next
    case False
    show ?thesis
    proof (cases "loads line")
      case (Inl e')
      with r False have "e' = JSONDecodeError"
        by (simp add: readable_def)
      with Inl False Cons.IH [OF rest] show ?thesis by simp
    next
      case (Inr chunk)
      with r False have wf: "well_formed_chunk chunk"
        by (simp add: readable_def)
      then obtain items where c: "chunk = PDict items"
        by (cases chunk) auto
      from nc False Inr have "\<not> chunk_done chunk"
        by (simp add: completes_def)
      with wf c False Inr Cons.IH [OF rest] show ?thesis
        by (auto split: option.splits pyval.splits)
    qed
  qed
qed

lemma list_all_replicate: "list_all P (replicate n x) \<longleftrightarrow> n = 0 \<or> P x"
  by (induction n) auto

lemma deeply_nested_not_empty: "deeply_nested \<noteq> []"
  by (simp add: deeply_nested_def)

lemma example_loads_deeply_nested: "example_loads deeply_nested = Inl RecursionError"
  by (simp add: example_loads_def deeply_nested_def list_all_replicate)

text \<open>
  C7, as stated, fails on a stream with a line that is not JSON and on which the decoder
  raises something other than a decode error: the line of opening brackets between two
  good chunks is not skipped, the function ends with \<open>RecursionError\<close>, where the same
  stream without that line gives the two fragments.
\<close>

theorem call_ollama_aggregation_counterexample:
  "example_loads deeply_nested = Inl RecursionError \<and>
   call_ollama example_loads 200 True
     [''{\"response\":\"Hel\",\"done\":false}'', deeply_nested,
      ''{\"response\":\"!\",\"done\":true}''] = Inl RecursionError \<and>
   call_ollama example_loads 200 True
     [''{\"response\":\"Hel\",\"done\":false}'',
      ''{\"response\":\"!\",\"done\":true}''] = Inr ''Hel!''"
proof -
  have h: "example_loads ''{\"response\":\"Hel\",\"done\":false}'' =
      Inr (PDict [(''response'', PStr ''Hel''), (''done'', PBool False)])"
    by (simp add: example_loads_def example_documents_def)
  have b: "example_loads ''{\"response\":\"!\",\"done\":true}'' =
      Inr (PDict [(''response'', PStr ''!''), (''done'', PBool True)])"
    by (simp add: example_loads_def example_documents_def)
  show ?thesis
    by (simp add: call_ollama_def h b example_loads_deeply_nested deeply_nested_not_empty)
qed

text \<open>
  C7, amended. On a stream of lines answered with status 200: if the lines read, up to
  and including the first that completes the stream, are readable, then the result is the
  concatenation of the fragments of their chunks in arrival order, so that nothing after
  the first completed chunk is looked at. A line on which \<open>json.loads\<close> reports a
  decode error can be taken out of any stream without changing what the function does on
  it. A line on which \<open>json.loads\<close> raises any other exception, reached before the
  stream completes, ends the function with that exception.
\<close>

theorem call_ollama_aggregation:
  "((\<forall>line\<in>set (lines_read loads lines). readable loads line) \<longrightarrow>
     call_ollama loads 200 decodes lines =
       Inr (concat (map chunk_fragment (parsed_chunks loads (lines_read loads lines))))) \<and>
   (loads bad = Inl JSONDecodeError \<longrightarrow>
     call_ollama loads 200 decodes (before @ bad # after) =
       call_ollama loads 200 decodes (before @ after)) \<and>
   ((\<forall>line\<in>set before. readable loads line \<and> \<not> completes loads line) \<and>
    bad \<noteq> [] \<and> loads bad = Inl e \<and> e \<noteq> JSONDecodeError \<longrightarrow>
     call_ollama loads 200 decodes (before @ bad # after) = Inl e)"
  using aggregate_lines_read [of loads lines "[]"]
    aggregate_lines_skip [of loads bad "[]" before after]
    aggregate_lines_abort [of before loads bad e "[]" after]
  by (simp add: call_ollama_def)

theorem call_ollama_aggregation_witness:
  "lines_read example_loads
       [''{\"response\":\"Hel\",\"done\":false}'', [], ''garbage'',
        ''{\"response\":\"lo\"}'', ''{\"response\":\"!\",\"done\":true}'',
        ''[1]'', deeply_nested] =
       [''{\"response\":\"Hel\",\"done\":false}'', [], ''garbage'',
        ''{\"response\":\"lo\"}'', ''{\"response\":\"!\",\"done\":true}''] \<and>
   list_all (readable example_loads)
       [''{\"response\":\"Hel\",\"done\":false}'', [], ''garbage'',
        ''{\"response\":\"lo\"}'', ''{\"response\":\"!\",\"done\":true}''] \<and>
   call_ollama example_loads 200 True
       [''{\"response\":\"Hel\",\"done\":false}'', [], ''garbage'',
        ''{\"response\":\"lo\"}'', ''{\"response\":\"!\",\"done\":true}'',
        ''[1]'', deeply_nested] = Inr ''Hello!'' \<and>
   example_loads ''garbage'' = Inl JSONDecodeError \<and>
   call_ollama example_loads 200 True
       ([''{\"response\":\"Hel\",\"done\":false}''] @ ''garbage'' # [''[1]'']) =
     call_ollama example_loads 200 True
       ([''{\"response\":\"Hel\",\"done\":false}''] @ [''[1]'']) \<and>
   list_all (\<lambda>line. readable example_loads line \<and> \<not> completes example_loads line)
       [''{\"response\":\"Hel\",\"done\":false}'', ''garbage''] \<and>
   deeply_nested \<noteq> [] \<and> example_loads deeply_nested = Inl RecursionError \<and>
   RecursionError \<noteq> JSONDecodeError \<and>
   call_ollama example_loads 200 True
       ([''{\"response\":\"Hel\",\"done\":false}'', ''garbage''] @ deeply_nested #
        [''{\"response\":\"!\",\"done\":true}'']) = Inl RecursionError"
proof -
  let ?lines = "[''{\"response\":\"Hel\",\"done\":false}'', [], ''garbage'',
        ''{\"response\":\"lo\"}'', ''{\"response\":\"!\",\"done\":true}'',
        ''[1]'', deeply_nested]"
  let ?read = "[''{\"response\":\"Hel\",\"done\":false}'', [], ''garbage'',
        ''{\"response\":\"lo\"}'', ''{\"response\":\"!\",\"done\":true}'']"
  have l1: "example_loads ''{\"response\":\"Hel\",\"done\":false}'' =
      Inr (PDict [(''response'', PStr ''Hel''), (''done'', PBool False)])"
    by (simp add: example_loads_def example_documents_def)
  have l2: "example_loads ''garbage'' = Inl JSONDecodeError"
    by (simp add: example_loads_def example_documents_def)
  have l3: "example_loads ''{\"response\":\"lo\"}'' = Inr (PDict [(''response'', PStr ''lo'')])"
    by (simp add: example_loads_def example_documents_def)
  have l4: "example_loads ''{\"response\":\"!\",\"done\":true}'' =
      Inr (PDict [(''response'', PStr ''!''), (''done'', PBool True)])"
    by (simp add: example_loads_def example_documents_def)
  have read: "lines_read example_loads ?lines = ?read"
    by (simp add: completes_def l1 l2 l3 l4)
  have ok: "list_all (readable example_loads) ?read"
    by (simp add: readable_def l1 l2 l3 l4)
  then have hyp: "\<forall>line\<in>set (lines_read example_loads ?lines). readable example_loads line"
    unfolding read by (simp only: list_all_iff)
  from call_ollama_aggregation [of example_loads ?lines True, THEN conjunct1] hyp
  have "call_ollama example_loads 200 True ?lines =
       Inr (concat (map chunk_fragment
              (parsed_chunks example_loads (lines_read example_loads ?lines))))"
    by (rule mp)
  also have "\<dots> = Inr ''Hello!''"
    unfolding read by (simp add: parsed_chunks_def l1 l2 l3 l4)
  finally have res: "call_ollama example_loads 200 True ?lines = Inr ''Hello!''" .
  from call_ollama_aggregation
         [of example_loads _ True "''garbage''" "[''{\"response\":\"Hel\",\"done\":false}'']"
             "[''[1]'']", THEN conjunct2, THEN conjunct1] l2
  have skip: "call_ollama example_loads 200 True
       ([''{\"response\":\"Hel\",\"done\":false}''] @ ''garbage'' # [''[1]'']) =
     call_ollama example_loads 200 True
       ([''{\"response\":\"Hel\",\"done\":false}''] @ [''[1]''])"
    by (rule mp)
  have before: "list_all (\<lambda>line. readable example_loads line \<and> \<not> completes example_loads line)
       [''{\"response\":\"Hel\",\"done\":false}'', ''garbage'']"
    by (simp add: readable_def completes_def l1 l2)
  have ne: "RecursionError \<noteq> JSONDecodeError"
    by simp
  from before have "\<forall>line\<in>set [''{\"response\":\"Hel\",\"done\":false}'', ''garbage''].
      readable example_loads line \<and> \<not> completes example_loads line"
    by (simp only: list_all_iff)
  with deeply_nested_not_empty example_loads_deeply_nested ne
  have hyp3: "(\<forall>line\<in>set [''{\"response\":\"Hel\",\"done\":false}'', ''garbage''].
      readable example_loads line \<and> \<not> completes example_loads line) \<and>
    deeply_nested \<noteq> [] \<and> example_loads deeply_nested = Inl RecursionError \<and>
    RecursionError \<noteq> JSONDecodeError"
    by (intro conjI)
  from call_ollama_aggregation
         [of example_loads _ True deeply_nested
             "[''{\"response\":\"Hel\",\"done\":false}'', ''garbage'']"
             "[''{\"response\":\"!\",\"done\":true}'']" RecursionError,
          THEN conjunct2, THEN conjunct2] hyp3
  have abort: "call_ollama example_loads 200 True
       ([''{\"response\":\"Hel\",\"done\":false}'', ''garbage''] @ deeply_nested #
        [''{\"response\":\"!\",\"done\":true}'']) = Inl RecursionError"
    by (rule mp)
  from read ok res l2 skip before deeply_nested_not_empty example_loads_deeply_nested ne abort
  show ?thesis by (intro conjI)
qed


section \<open>Properties of the JSON extraction\<close>

lemma lazy_group_prefix: "lazy_group s = Some g \<Longrightarrow> prefix g s"
  by (induction s arbitrary: g) (auto split: if_splits)

lemma not_space_backtick: "\<not> is_space (CHR 0x60)"
  by (simp add: is_space_def)

text \<open>The contents of a fenced block hold no fence of their own.\<close>

lemma lazy_group_no_fence: "lazy_group s = Some g \<Longrightarrow> \<not> sublist ''```'' g"
proof (induction s arbitrary: g)
  case Nil
  then show ?case by simp
next
  case (Cons c cs)
  show ?case
  proof (cases "closes_fence (c # cs)")
    case True
    with Cons.prems show ?thesis by simp
  next
    case False
    with Cons.prems obtain g' where g: "g = c # g'" "lazy_group cs = Some g'"
      by auto
    have "\<not> prefix ''```'' (c # g')"
    proof
      assume p: "prefix ''```'' (c # g')"
      then have c: "c = CHR 0x60" by simp
      from g(2) have "prefix (c # g') (c # cs)"
        by (simp add: lazy_group_prefix)
      with p have "prefix ''```'' (c # cs)"
        by (rule prefix_order.trans)
      with c have "closes_fence (c # cs)"
        by (simp add: closes_fence_def not_space_backtick)
      with False show False by simp
    qed
    with Cons.IH [OF g(2)] g(1) show ?thesis
      by (simp add: sublist_Cons_right)
  qed
qed

lemma first_some_lazy_group:
  "first_some lazy_group xs = Some g \<Longrightarrow> \<not> sublist ''```'' g"
  by (induction xs) (auto split: option.splits dest: lazy_group_no_fence)

lemma search_fence_no_fence: "search_fence s = Some g \<Longrightarrow> \<not> sublist ''```'' g"
proof (induction s)
  case Nil
  then show ?case by simp
next
  case (Cons c cs)
  then show ?case
    by (auto simp: fence_body_def split: option.splits if_splits
        dest: first_some_lazy_group)
qed

lemma no_fence_search: "\<not> sublist ''```'' s \<Longrightarrow> search_fence s = None"
proof (induction s)
  case Nil
  show ?case by simp
next
  case (Cons c cs)
  then have np: "\<not> prefix ''```'' (c # cs)" and "\<not> sublist ''```'' cs"
    by (auto simp: sublist_Cons_right)
  with Cons.IH have "search_fence cs = None" by simp
  with np show ?case
    by (simp only: search_fence.simps if_False option.case)
qed

text \<open>The nested \<open>try\<close> and the loop are the candidates of \<open>layers\<close> tried in order.\<close>

lemma extract_is_parse_then_scan:
  "extract_json_from_response loads s =
     parse_then_scan loads (case search_fence s of Some body \<Rightarrow> body | None \<Rightarrow> s)"
  by (simp add: extract_json_from_response_def parse_then_scan_def layers_def Let_def
      split: option.splits sum.splits)

text \<open>
  A response with a fenced block that is not JSON, followed by a JSON object, under any
  decoder that reports a decode error on the block and on the whole response and accepts
  the object.
\<close>

lemma extract_fenced_then_object:
  assumes "loads ''not json'' = Inl JSONDecodeError"
    and "loads ''```\<newline>not json\<newline>```\<newline>{\"a\": 1}'' = Inl JSONDecodeError"
    and "loads ''{\"a\": 1}'' = Inr v"
  shows "extract_json_from_response loads ''```\<newline>not json\<newline>```\<newline>{\"a\": 1}''
           = Inl ValueError"
    and "extraction_as_specified loads ''```\<newline>not json\<newline>```\<newline>{\"a\": 1}''
           = Inr v"
proof -
  have f: "search_fence ''```\<newline>not json\<newline>```\<newline>{\"a\": 1}'' = Some ''not json''"
    by (simp add: fence_body_def space_splits_def closes_fence_def is_space_def)
  have s1: "strip ''not json'' = ''not json''"
    by (simp add: strip_def is_space_def)
  have s2: "strip ''```\<newline>not json\<newline>```\<newline>{\"a\": 1}'' =
      ''```\<newline>not json\<newline>```\<newline>{\"a\": 1}''"
    by (simp add: strip_def is_space_def)
  have o1: "search_span (CHR ''{'') (CHR ''}'') ''not json'' = None"
    by (simp add: search_span_def)
  have a1: "search_span (CHR ''['') (CHR '']'') ''not json'' = None"
    by (simp add: search_span_def)
  have o2: "search_span (CHR ''{'') (CHR ''}'')
      ''```\<newline>not json\<newline>```\<newline>{\"a\": 1}'' = Some ''{\"a\": 1}''"
    by (simp add: search_span_def)
  show "extract_json_from_response loads ''```\<newline>not json\<newline>```\<newline>{\"a\": 1}''
           = Inl ValueError"
    unfolding extract_is_parse_then_scan f
    by (simp add: parse_then_scan_def layers_def s1 o1 a1 assms)
  show "extraction_as_specified loads ''```\<newline>not json\<newline>```\<newline>{\"a\": 1}''
           = Inr v"
    unfolding extraction_as_specified_def layers_def f s2 o2
    by (simp add: s1 assms)
qed

text \<open>
  C4, as stated, fails on that response: the specified strategy goes on to the entire
  text and finds the object; the function has replaced the text by the block's contents,
  finds nothing there and raises \<open>ValueError\<close>.
\<close>

theorem extract_json_from_response_counterexample:
  "search_fence ''```\<newline>not json\<newline>```\<newline>{\"a\": 1}'' = Some ''not json'' \<and>
   example_loads (strip ''not json'') = Inl JSONDecodeError \<and>
   extract_json_from_response example_loads ''```\<newline>not json\<newline>```\<newline>{\"a\": 1}''
     = Inl ValueError \<and>
   extraction_as_specified example_loads ''```\<newline>not json\<newline>```\<newline>{\"a\": 1}''
     = Inr (PDict [(''a'', PInt 1)])"
proof -
  have l1: "example_loads ''not json'' = Inl JSONDecodeError"
    by (simp add: example_loads_def example_documents_def)
  have l2: "example_loads ''```\<newline>not json\<newline>```\<newline>{\"a\": 1}'' = Inl JSONDecodeError"
    by (simp add: example_loads_def example_documents_def)
  have l3: "example_loads ''{\"a\": 1}'' = Inr (PDict [(''a'', PInt 1)])"
    by (simp add: example_loads_def example_documents_def)
  have f: "search_fence ''```\<newline>not json\<newline>```\<newline>{\"a\": 1}'' = Some ''not json''"
    by (simp add: fence_body_def space_splits_def closes_fence_def is_space_def)
  have s: "example_loads (strip ''not json'') = Inl JSONDecodeError"
    by (simp add: strip_def is_space_def example_loads_def example_documents_def)
  from f s extract_fenced_then_object [OF l1 l2 l3] show ?thesis
    by (intro conjI)
qed

text \<open>
  C4, amended. The function works on one text: the contents of the first fenced block
  when there is one, the response otherwise. On that text it tries, in order and with the
  first success winning, the trimmed text, the object-like substring and the array-like
  substring, going on to the next after a decode error and raising \<open>ValueError\<close> when
  none is left; any other exception of \<open>json.loads\<close> ends the function at once, as it
  does at the first parse. With a fenced block, the text around the block has no part in
  the result: the response gives what the contents alone would give.
\<close>

theorem extract_json_from_response_layers:
  "(search_fence text = None \<longrightarrow>
      extract_json_from_response loads text = parse_then_scan loads text) \<and>
   (\<forall>body. search_fence text = Some body \<longrightarrow>
      extract_json_from_response loads text = parse_then_scan loads body \<and>
      extract_json_from_response loads text = extract_json_from_response loads body) \<and>
   (\<forall>e. e \<noteq> JSONDecodeError \<and>
        loads (strip (case search_fence text of Some body \<Rightarrow> body | None \<Rightarrow> text)) = Inl e \<longrightarrow>
      extract_json_from_response loads text = Inl e)"
proof (intro conjI allI impI)
  assume "search_fence text = None"
  then show "extract_json_from_response loads text = parse_then_scan loads text"
    by (simp add: extract_is_parse_then_scan)
next
  fix body
  assume f: "search_fence text = Some body"
  then show "extract_json_from_response loads text = parse_then_scan loads body"
    by (simp add: extract_is_parse_then_scan)
  from f have "search_fence body = None"
    by (intro no_fence_search search_fence_no_fence)
  with f show "extract_json_from_response loads text = extract_json_from_response loads body"
    by (simp add: extract_is_parse_then_scan)
next
  fix e
  assume "e \<noteq> JSONDecodeError \<and>
        loads (strip (case search_fence text of Some body \<Rightarrow> body | None \<Rightarrow> text)) = Inl e"
  then show "extract_json_from_response loads text = Inl e"
    by (simp add: extract_json_from_response_def Let_def)
qed

lemma search_fence_deeply_nested: "search_fence deeply_nested = None"
proof (rule no_fence_search)
  show "\<not> sublist ''```'' deeply_nested"
  proof
    assume "sublist ''```'' deeply_nested"
    then have "set ''```'' \<subseteq> set deeply_nested"
      by (rule set_mono_sublist)
    then show False
      by (simp add: deeply_nested_def)
  qed
qed

lemma strip_deeply_nested: "strip deeply_nested = deeply_nested"
  by (simp add: strip_def deeply_nested_def is_space_def)

theorem extract_json_from_response_layers_witness:
  "search_fence ''Sure: {\"a\": 1} ok'' = None \<and>
   extract_json_from_response example_loads ''Sure: {\"a\": 1} ok''
     = parse_then_scan example_loads ''Sure: {\"a\": 1} ok'' \<and>
   search_fence ''```\<newline>not json\<newline>```\<newline>{\"a\": 1}'' = Some ''not json'' \<and>
   extract_json_from_response example_loads ''```\<newline>not json\<newline>```\<newline>{\"a\": 1}''
     = parse_then_scan example_loads ''not json'' \<and>
   extract_json_from_response example_loads ''```\<newline>not json\<newline>```\<newline>{\"a\": 1}''
     = extract_json_from_response example_loads ''not json'' \<and>
   RecursionError \<noteq> JSONDecodeError \<and>
   example_loads
     (strip (case search_fence deeply_nested of Some body \<Rightarrow> body | None \<Rightarrow> deeply_nested))
     = Inl RecursionError \<and>
   extract_json_from_response example_loads deeply_nested = Inl RecursionError"
proof -
  have n: "search_fence ''Sure: {\"a\": 1} ok'' = None"
    by simp
  have s: "search_fence ''```\<newline>not json\<newline>```\<newline>{\"a\": 1}'' = Some ''not json''"
    by (simp add: fence_body_def space_splits_def closes_fence_def is_space_def)
  from extract_json_from_response_layers
         [of "''Sure: {\"a\": 1} ok''" example_loads, THEN conjunct1] n
  have r1: "extract_json_from_response example_loads ''Sure: {\"a\": 1} ok''
     = parse_then_scan example_loads ''Sure: {\"a\": 1} ok''"
    by (rule mp)
  from extract_json_from_response_layers
         [of "''```\<newline>not json\<newline>```\<newline>{\"a\": 1}''" example_loads,
          THEN conjunct2, THEN conjunct1, THEN spec, of "''not json''"] s
  have r2: "extract_json_from_response example_loads ''```\<newline>not json\<newline>```\<newline>{\"a\": 1}''
     = parse_then_scan example_loads ''not json'' \<and>
   extract_json_from_response example_loads ''```\<newline>not json\<newline>```\<newline>{\"a\": 1}''
     = extract_json_from_response example_loads ''not json''"
    by (rule mp)
  have ne: "RecursionError \<noteq> JSONDecodeError"
    by simp
  have d: "example_loads
     (strip (case search_fence deeply_nested of Some body \<Rightarrow> body | None \<Rightarrow> deeply_nested))
     = Inl RecursionError"
    by (simp add: search_fence_deeply_nested strip_deeply_nested example_loads_deeply_nested)
  from ne d have h3: "RecursionError \<noteq> JSONDecodeError \<and>
     example_loads
     (strip (case search_fence deeply_nested of Some body \<Rightarrow> body | None \<Rightarrow> deeply_nested))
     = Inl RecursionError"
    by (intro conjI)
  from extract_json_from_response_layers
         [of deeply_nested example_loads, THEN conjunct2, THEN conjunct2, THEN spec,
          of RecursionError] h3
  have r3: "extract_json_from_response example_loads deeply_nested = Inl RecursionError"
    by (rule mp)
  from n r1 s r2 [THEN conjunct1] r2 [THEN conjunct2] ne d r3 show ?thesis
    by (intro conjI)
qed


section \<open>Properties of the conversion\<close>

lemma and_then_Inr_iff [simp]:
  "and_then r f = Inr y \<longleftrightarrow> (\<exists>x. r = Inr x \<and> f x = Inr y)"
  by (cases r) (simp_all add: and_then_def)

lemma and_then_Inr [simp]: "and_then (Inr x) f = f x"
  by (simp add: and_then_def)

lemma and_then_Inl [simp]: "and_then (Inl e) f = Inl e"
  by (simp add: and_then_def)

lemma float_of_int_0: "float_of_int 0 = Inr (Finite 0)"
  by (simp add: float_of_int_def bit_length.simps [of 0])

text \<open>The loop touches the transactions only, and only by appending.\<close>

lemma append_transactions_result:
  "append_transactions lib entries result = (x, result') \<Longrightarrow>
   result' = result\<lparr>transactions :=
       transactions result @ converted_prefix lib (length (transactions result)) entries\<rparr>"
proof (induction entries arbitrary: result)
  case Nil
  then show ?case by simp
next
  case (Cons tx rest)
  show ?case
  proof (cases "make_transaction lib (length (transactions result)) tx")
    case (Inl e)
    with Cons.prems show ?thesis by simp
  next
    case (Inr t)
    with Cons.prems have
      "append_transactions lib rest (result\<lparr>transactions := transactions result @ [t]\<rparr>)
         = (x, result')"
      by simp
    from Cons.IH [OF this] Inr show ?thesis by simp
  qed
qed

lemma convert_transactions_result:
  "convert_transactions lib parsed_data result = (x, result') \<Longrightarrow>
   transactions result = [] \<Longrightarrow>
   result' = result\<lparr>transactions :=
       (case payload_entries parsed_data of
          Inl e \<Rightarrow> []
        | Inr entries \<Rightarrow> converted_prefix lib 0 entries)\<rparr>"
  by (auto simp: convert_transactions_def split: sum.splits
      dest: append_transactions_result)

lemma make_bill_isPaid: "make_bill lib n bill_info = Inr b \<Longrightarrow> \<not> isPaid b"
  by (auto simp: make_bill_def)

lemma make_credit_card_debt_frequency:
  "make_credit_card_debt lib n debt_info = Inr d \<Longrightarrow> paymentFrequency d = Some ''monthly''"
  by (auto simp: make_credit_card_debt_def)

text \<open>What the body of the \<open>try\<close> leaves of a fresh result, case by case.\<close>

lemma try_body_result:
  assumes "try_body lib parsed_data doc_type result = (x, result')"
    and "transactions result = []" and "bills result = []" and "debts result = []"
  shows "success result' = success result \<and> error result' = error result \<and>
         document_type result' = document_type result \<and>
         raw_text result' = raw_text result \<and>
         transactions result' =
           (if doc_type = BANK_STATEMENT \<or> doc_type = CREDIT_CARD
            then case payload_entries parsed_data of
                   Inl e \<Rightarrow> [] | Inr entries \<Rightarrow> converted_prefix lib 0 entries
            else []) \<and>
         (x \<noteq> None \<longrightarrow> bills result' = [] \<and> debts result' = []) \<and>
         (doc_type = BILL \<longrightarrow> debts result' = [] \<and> (\<forall>b\<in>set (bills result'). \<not> isPaid b)) \<and>
         (doc_type = CREDIT_CARD \<longrightarrow> bills result' = [] \<and>
            (\<forall>d\<in>set (debts result'). paymentFrequency d = Some ''monthly''))"
proof (cases doc_type)
  case BANK_STATEMENT
  with assms(1) have c: "convert_transactions lib parsed_data result = (x, result')"
    by (simp add: try_body_def)
  from convert_transactions_result [OF c assms(2)]
  have "result' = result\<lparr>transactions :=
       (case payload_entries parsed_data of
          Inl e \<Rightarrow> [] | Inr entries \<Rightarrow> converted_prefix lib 0 entries)\<rparr>" .
  with BANK_STATEMENT assms(3,4) show ?thesis by simp
next
  case CREDIT_CARD
  obtain y r1 where c: "convert_transactions lib parsed_data result = (y, r1)"
    by (cases "convert_transactions lib parsed_data result")
  from convert_transactions_result [OF c assms(2)]
  have r1: "r1 = result\<lparr>transactions :=
       (case payload_entries parsed_data of
          Inl e \<Rightarrow> [] | Inr entries \<Rightarrow> converted_prefix lib 0 entries)\<rparr>" .
  from assms(1) CREDIT_CARD c r1 assms(3,4) show ?thesis
    by (auto simp: try_body_def split: option.splits sum.splits if_splits
        dest: make_credit_card_debt_frequency)
next
  case BILL
  with assms show ?thesis
    by (auto simp: try_body_def split: sum.splits if_splits dest: make_bill_isPaid)
next
  case LOAN
  with assms show ?thesis
    by (auto simp: try_body_def split: sum.splits if_splits)
next
  case AUTO
  with assms show ?thesis
    by (auto simp: try_body_def)
qed

lemma convert_result:
  "\<exists>x result'.
     try_body lib parsed_data doc_type
       \<lparr>success = True, document_type = DocumentType_value doc_type,
        transactions = [], bills = [], debts = [], raw_text = None, error = None\<rparr>
       = (x, result') \<and>
     convert_to_driftmoney_format lib parsed_data doc_type =
       (case x of None \<Rightarrow> result' | Some e \<Rightarrow> result'\<lparr>success := False, error := Some e\<rparr>)"
  by (cases "try_body lib parsed_data doc_type
       \<lparr>success = True, document_type = DocumentType_value doc_type,
        transactions = [], bills = [], debts = [], raw_text = None, error = None\<rparr>")
     (auto simp: convert_to_driftmoney_format_def Let_def split: option.splits)

lemma convert_facts:
  "(success (convert_to_driftmoney_format lib parsed_data doc_type) \<longleftrightarrow>
      error (convert_to_driftmoney_format lib parsed_data doc_type) = None) \<and>
   document_type (convert_to_driftmoney_format lib parsed_data doc_type) =
      DocumentType_value doc_type \<and>
   transactions (convert_to_driftmoney_format lib parsed_data doc_type) =
     (if doc_type = BANK_STATEMENT \<or> doc_type = CREDIT_CARD
      then case payload_entries parsed_data of
             Inl e \<Rightarrow> [] | Inr entries \<Rightarrow> converted_prefix lib 0 entries
      else []) \<and>
   (\<not> success (convert_to_driftmoney_format lib parsed_data doc_type) \<longrightarrow>
      bills (convert_to_driftmoney_format lib parsed_data doc_type) = [] \<and>
      debts (convert_to_driftmoney_format lib parsed_data doc_type) = []) \<and>
   (doc_type = BILL \<longrightarrow>
      (\<forall>b\<in>set (bills (convert_to_driftmoney_format lib parsed_data doc_type)). \<not> isPaid b)) \<and>
   (doc_type = CREDIT_CARD \<longrightarrow>
      (\<forall>d\<in>set (debts (convert_to_driftmoney_format lib parsed_data doc_type)).
         paymentFrequency d = Some ''monthly''))"
proof -
  from convert_result [of lib parsed_data doc_type] obtain x result' where
    b: "try_body lib parsed_data doc_type
       \<lparr>success = True, document_type = DocumentType_value doc_type,
        transactions = [], bills = [], debts = [], raw_text = None, error = None\<rparr>
       = (x, result')"
    and c: "convert_to_driftmoney_format lib parsed_data doc_type =
       (case x of None \<Rightarrow> result' | Some e \<Rightarrow> result'\<lparr>success := False, error := Some e\<rparr>)"
    by blast
  from try_body_result [OF b] have r:
    "success result' = True" "error result' = None"
    "document_type result' = DocumentType_value doc_type"
    "transactions result' =
           (if doc_type = BANK_STATEMENT \<or> doc_type = CREDIT_CARD
            then case payload_entries parsed_data of
                   Inl e \<Rightarrow> [] | Inr entries \<Rightarrow> converted_prefix lib 0 entries
            else [])"
    "x \<noteq> None \<longrightarrow> bills result' = [] \<and> debts result' = []"
    "doc_type = BILL \<longrightarrow> (\<forall>b\<in>set (bills result'). \<not> isPaid b)"
    "doc_type = CREDIT_CARD \<longrightarrow>
            (\<forall>d\<in>set (debts result'). paymentFrequency d = Some ''monthly'')"
    by simp_all
  define R where "R = convert_to_driftmoney_format lib parsed_data doc_type"
  with c have c': "R = (case x of None \<Rightarrow> result'
      | Some e \<Rightarrow> result'\<lparr>success := False, error := Some e\<rparr>)"
    by simp
  have "(success R \<longleftrightarrow> error R = None) \<and>
   document_type R = DocumentType_value doc_type \<and>
   transactions R =
     (if doc_type = BANK_STATEMENT \<or> doc_type = CREDIT_CARD
      then case payload_entries parsed_data of
             Inl e \<Rightarrow> [] | Inr entries \<Rightarrow> converted_prefix lib 0 entries
      else []) \<and>
   (\<not> success R \<longrightarrow> bills R = [] \<and> debts R = []) \<and>
   (doc_type = BILL \<longrightarrow> (\<forall>b\<in>set (bills R). \<not> isPaid b)) \<and>
   (doc_type = CREDIT_CARD \<longrightarrow>
      (\<forall>d\<in>set (debts R). paymentFrequency d = Some ''monthly''))"
  proof (cases x)
    case None
    with c' r show ?thesis by simp
  next
    case (Some e)
    with c' r show ?thesis by simp
  qed
  then show ?thesis unfolding R_def .
qed



text \<open>
  Under \<open>BANK_STATEMENT\<close>, a payload whose first entry is an empty object and whose
  second entry is the number 5, whatever the library: the first entry converts with the
  defaults, the second has no \<open>get\<close> and raises \<open>AttributeError\<close>.
\<close>

lemma convert_second_entry_fails:
  "convert_to_driftmoney_format lib
     (PDict [(''transactions'', PList [PDict [], PInt 5])]) BANK_STATEMENT =
   \<lparr>success = False, document_type = ''bank_statement'',
    transactions =
      [\<lparr>tx_id = uuid4 lib 0, tx_description = ''Unknown'', tx_amount = Finite 0,
        tx_type = ''expense'', tx_date = today lib, tx_category = None\<rparr>],
    bills = [], debts = [], raw_text = None, error = Some AttributeError\<rparr>"
  by (simp add: convert_to_driftmoney_format_def try_body_def convert_transactions_def
      payload_entries_def make_transaction_def float_of_int_0)

text \<open>
  C1, as stated, fails on that payload: the result has \<open>success\<close> false and \<open>error\<close>
  set, and still holds the first entry's record.
\<close>

theorem convert_to_driftmoney_format_partial_counterexample:
  "convert_to_driftmoney_format example_library
     (PDict [(''transactions'', PList [PDict [], PInt 5])]) BANK_STATEMENT =
   \<lparr>success = False, document_type = ''bank_statement'',
    transactions =
      [\<lparr>tx_id = ''uuid-'', tx_description = ''Unknown'', tx_amount = Finite 0,
        tx_type = ''expense'', tx_date = ''2026-01-15'', tx_category = None\<rparr>],
    bills = [], debts = [], raw_text = None, error = Some AttributeError\<rparr>"
  using convert_second_entry_fails [of example_library]
  by (simp add: example_library_def)

lemma convert_via_try_body:
  "convert_to_driftmoney_format lib parsed_data doc_type =
     (case try_body lib parsed_data doc_type (fresh_result doc_type) of
        (None, result') \<Rightarrow> result'
      | (Some e, result') \<Rightarrow> result'\<lparr>success := False, error := Some e\<rparr>)"
  by (simp add: convert_to_driftmoney_format_def fresh_result_def Let_def)

lemma try_body_keeps_success:
  assumes "try_body lib parsed_data doc_type (fresh_result doc_type) = (x, result')"
  shows "success result' = True \<and> error result' = None"
proof -
  have "transactions (fresh_result doc_type) = []" "bills (fresh_result doc_type) = []"
    "debts (fresh_result doc_type) = []"
    by (simp_all add: fresh_result_def)
  from try_body_result [OF assms this]
  have "success result' = success (fresh_result doc_type) \<and>
      error result' = error (fresh_result doc_type)"
    by simp
  then show ?thesis by (simp add: fresh_result_def)
qed

text \<open>
  C1, amended. The function always returns a result. When the body of the \<open>try\<close> ends
  with an exception \<open>e\<close>, the result is the result object as the body left it, with
  \<open>success\<close> false and \<open>error\<close> set from \<open>e\<close>; when it ends without one, the
  result is that object with \<open>success\<close> true and no error. So \<open>success\<close> is false
  exactly when \<open>error\<close> is set, and then the bills and the debts are empty and the
  transactions are the records of the entries converted before the failure: under
  \<open>BANK_STATEMENT\<close> and \<open>CREDIT_CARD\<close> the longest run of leading entries that
  convert (none if the entries cannot be read), under the other categories none.
\<close>

theorem convert_to_driftmoney_format_failure:
  "(\<forall>e result'.
      try_body lib parsed_data doc_type (fresh_result doc_type) = (Some e, result') \<longrightarrow>
        convert_to_driftmoney_format lib parsed_data doc_type =
          result'\<lparr>success := False, error := Some e\<rparr> \<and>
        success (convert_to_driftmoney_format lib parsed_data doc_type) = False \<and>
        error (convert_to_driftmoney_format lib parsed_data doc_type) = Some e) \<and>
   (\<forall>result'.
      try_body lib parsed_data doc_type (fresh_result doc_type) = (None, result') \<longrightarrow>
        convert_to_driftmoney_format lib parsed_data doc_type = result' \<and>
        success (convert_to_driftmoney_format lib parsed_data doc_type) = True \<and>
        error (convert_to_driftmoney_format lib parsed_data doc_type) = None) \<and>
   (success (convert_to_driftmoney_format lib parsed_data doc_type) \<longleftrightarrow>
      error (convert_to_driftmoney_format lib parsed_data doc_type) = None) \<and>
   (\<not> success (convert_to_driftmoney_format lib parsed_data doc_type) \<longrightarrow>
      error (convert_to_driftmoney_format lib parsed_data doc_type) \<noteq> None \<and>
      bills (convert_to_driftmoney_format lib parsed_data doc_type) = [] \<and>
      debts (convert_to_driftmoney_format lib parsed_data doc_type) = [] \<and>
      transactions (convert_to_driftmoney_format lib parsed_data doc_type) =
        (if doc_type = BANK_STATEMENT \<or> doc_type = CREDIT_CARD
         then case payload_entries parsed_data of
                Inl e \<Rightarrow> [] | Inr entries \<Rightarrow> converted_prefix lib 0 entries
         else []))"
proof (intro conjI allI impI)
  fix e result'
  assume b: "try_body lib parsed_data doc_type (fresh_result doc_type) = (Some e, result')"
  then show c: "convert_to_driftmoney_format lib parsed_data doc_type =
          result'\<lparr>success := False, error := Some e\<rparr>"
    by (simp add: convert_via_try_body)
  from c show "success (convert_to_driftmoney_format lib parsed_data doc_type) = False"
    by simp
  from c show "error (convert_to_driftmoney_format lib parsed_data doc_type) = Some e"
    by simp
next
  fix result'
  assume b: "try_body lib parsed_data doc_type (fresh_result doc_type) = (None, result')"
  then show c: "convert_to_driftmoney_format lib parsed_data doc_type = result'"
    by (simp add: convert_via_try_body)
  from try_body_keeps_success [OF b] c
  show "success (convert_to_driftmoney_format lib parsed_data doc_type) = True"
    by simp
  from try_body_keeps_success [OF b] c
  show "error (convert_to_driftmoney_format lib parsed_data doc_type) = None"
    by simp
next
  show "success (convert_to_driftmoney_format lib parsed_data doc_type) \<longleftrightarrow>
      error (convert_to_driftmoney_format lib parsed_data doc_type) = None"
    using convert_facts [of lib parsed_data doc_type] by simp
next
  assume ns: "\<not> success (convert_to_driftmoney_format lib parsed_data doc_type)"
  with convert_facts [of lib parsed_data doc_type]
  show "error (convert_to_driftmoney_format lib parsed_data doc_type) \<noteq> None"
    by simp
  from ns convert_facts [of lib parsed_data doc_type]
  show "bills (convert_to_driftmoney_format lib parsed_data doc_type) = []"
    by simp
  from ns convert_facts [of lib parsed_data doc_type]
  show "debts (convert_to_driftmoney_format lib parsed_data doc_type) = []"
    by simp
  from convert_facts [of lib parsed_data doc_type]
  show "transactions (convert_to_driftmoney_format lib parsed_data doc_type) =
        (if doc_type = BANK_STATEMENT \<or> doc_type = CREDIT_CARD
         then case payload_entries parsed_data of
                Inl e \<Rightarrow> [] | Inr entries \<Rightarrow> converted_prefix lib 0 entries
         else [])"
    by simp
qed

theorem convert_to_driftmoney_format_failure_witness:
  "try_body example_library (PDict [(''transactions'', PList [PDict [], PInt 5])])
     BANK_STATEMENT (fresh_result BANK_STATEMENT) =
     (Some AttributeError,
      \<lparr>success = True, document_type = ''bank_statement'',
       transactions =
         [\<lparr>tx_id = ''uuid-'', tx_description = ''Unknown'', tx_amount = Finite 0,
           tx_type = ''expense'', tx_date = ''2026-01-15'', tx_category = None\<rparr>],
       bills = [], debts = [], raw_text = None, error = None\<rparr>) \<and>
   success (convert_to_driftmoney_format example_library
       (PDict [(''transactions'', PList [PDict [], PInt 5])]) BANK_STATEMENT) = False \<and>
   error (convert_to_driftmoney_format example_library
       (PDict [(''transactions'', PList [PDict [], PInt 5])]) BANK_STATEMENT)
     = Some AttributeError \<and>
   bills (convert_to_driftmoney_format example_library
       (PDict [(''transactions'', PList [PDict [], PInt 5])]) BANK_STATEMENT) = [] \<and>
   debts (convert_to_driftmoney_format example_library
       (PDict [(''transactions'', PList [PDict [], PInt 5])]) BANK_STATEMENT) = [] \<and>
   transactions (convert_to_driftmoney_format example_library
       (PDict [(''transactions'', PList [PDict [], PInt 5])]) BANK_STATEMENT) =
     converted_prefix example_library 0 [PDict [], PInt 5]"
proof -
  let ?pd = "PDict [(''transactions'', PList [PDict [], PInt 5])]"
  let ?r = "convert_to_driftmoney_format example_library ?pd BANK_STATEMENT"
  let ?left = "\<lparr>success = True, document_type = ''bank_statement'',
       transactions =
         [\<lparr>tx_id = ''uuid-'', tx_description = ''Unknown'', tx_amount = Finite 0,
           tx_type = ''expense'', tx_date = ''2026-01-15'', tx_category = None\<rparr>],
       bills = [], debts = [], raw_text = None, error = None\<rparr>"
  have b: "try_body example_library ?pd BANK_STATEMENT (fresh_result BANK_STATEMENT) =
      (Some AttributeError, ?left)"
    by (simp add: try_body_def convert_transactions_def fresh_result_def
        payload_entries_def make_transaction_def example_library_def float_of_int_0)
  from convert_to_driftmoney_format_failure
         [of example_library ?pd BANK_STATEMENT, THEN conjunct1, THEN spec, THEN spec] b
  have r1: "?r = ?left\<lparr>success := False, error := Some AttributeError\<rparr> \<and>
      success ?r = False \<and> error ?r = Some AttributeError"
    by (rule mp)
  then have ns: "\<not> success ?r" by simp
  have pe: "payload_entries ?pd = Inr [PDict [], PInt 5]"
    by (simp add: payload_entries_def)
  from convert_to_driftmoney_format_failure
         [of example_library ?pd BANK_STATEMENT, THEN conjunct2, THEN conjunct2,
          THEN conjunct2] ns
  have "error ?r \<noteq> None \<and> bills ?r = [] \<and> debts ?r = [] \<and>
      transactions ?r =
        (if BANK_STATEMENT = BANK_STATEMENT \<or> BANK_STATEMENT = CREDIT_CARD
         then case payload_entries ?pd of
                Inl e \<Rightarrow> [] | Inr entries \<Rightarrow> converted_prefix example_library 0 entries
         else [])"
    by (rule mp)
  with b r1 pe show ?thesis by simp
qed

text \<open>
  C6. Whatever the payload, a \<open>Bill\<close> produced under \<open>BILL\<close> has \<open>isPaid\<close> false, and
  a \<open>Debt\<close> produced under \<open>CREDIT_CARD\<close> has the payment frequency \<open>"monthly"\<close>.
\<close>

theorem convert_to_driftmoney_format_fixed_fields:
  "(\<forall>b\<in>set (bills (convert_to_driftmoney_format lib parsed_data BILL)). isPaid b = False) \<and>
   (\<forall>d\<in>set (debts (convert_to_driftmoney_format lib parsed_data CREDIT_CARD)).
      paymentFrequency d = Some ''monthly'')"
  using convert_facts [of lib parsed_data BILL] convert_facts [of lib parsed_data CREDIT_CARD]
  by simp

theorem convert_to_driftmoney_format_fixed_fields_witness:
  "bills (convert_to_driftmoney_format example_library
      (PDict [(''bill'', PDict [(''name'', PStr ''Electric''), (''dueDay'', PInt 15),
                               (''isPaid'', PBool True)])]) BILL) \<noteq> [] \<and>
   isPaid (hd (bills (convert_to_driftmoney_format example_library
      (PDict [(''bill'', PDict [(''name'', PStr ''Electric''), (''dueDay'', PInt 15),
                               (''isPaid'', PBool True)])]) BILL))) = False \<and>
   debts (convert_to_driftmoney_format example_library
      (PDict [(''debt'', PDict [(''company'', PStr ''Visa''),
                               (''paymentFrequency'', PStr ''weekly'')])]) CREDIT_CARD) \<noteq> [] \<and>
   paymentFrequency (hd (debts (convert_to_driftmoney_format example_library
      (PDict [(''debt'', PDict [(''company'', PStr ''Visa''),
                               (''paymentFrequency'', PStr ''weekly'')])]) CREDIT_CARD)))
     = Some ''monthly''"
proof -
  let ?b = "bills (convert_to_driftmoney_format example_library
      (PDict [(''bill'', PDict [(''name'', PStr ''Electric''), (''dueDay'', PInt 15),
                               (''isPaid'', PBool True)])]) BILL)"
  let ?d = "debts (convert_to_driftmoney_format example_library
      (PDict [(''debt'', PDict [(''company'', PStr ''Visa''),
                               (''paymentFrequency'', PStr ''weekly'')])]) CREDIT_CARD)"
  have b: "?b \<noteq> []"
    by (simp add: convert_to_driftmoney_format_def try_body_def make_bill_def
        example_library_def float_of_int_0)
  have d: "?d \<noteq> []"
    by (simp add: convert_to_driftmoney_format_def try_body_def convert_transactions_def
        payload_entries_def make_credit_card_debt_def example_library_def float_of_int_0)
  from b have "hd ?b \<in> set ?b" by (rule hd_in_set)
  with convert_to_driftmoney_format_fixed_fields [THEN conjunct1]
  have rb: "isPaid (hd ?b) = False" by (rule bspec)
  from d have "hd ?d \<in> set ?d" by (rule hd_in_set)
  with convert_to_driftmoney_format_fixed_fields [THEN conjunct2]
  have rd: "paymentFrequency (hd ?d) = Some ''monthly''" by (rule bspec)
  from b rb d rd show ?thesis by (intro conjI)
qed

text \<open>
  C8. A payload dict without the \<open>bill\<close> key under \<open>BILL\<close>, or without the \<open>debt\<close>
  key under \<open>LOAN\<close>, or with an empty object (or any other false value) there, gives
  the untouched fresh result: \<open>success\<close> true, every collection empty, no error.
\<close>

theorem convert_to_driftmoney_format_missing_substructure:
  "(map_of items ''bill'' = None \<or> (\<exists>v. map_of items ''bill'' = Some v \<and> \<not> py_truthy v) \<longrightarrow>
      convert_to_driftmoney_format lib (PDict items) BILL =
        \<lparr>success = True, document_type = ''bill'', transactions = [], bills = [],
         debts = [], raw_text = None, error = None\<rparr>) \<and>
   (map_of items ''debt'' = None \<or> (\<exists>v. map_of items ''debt'' = Some v \<and> \<not> py_truthy v) \<longrightarrow>
      convert_to_driftmoney_format lib (PDict items) LOAN =
        \<lparr>success = True, document_type = ''loan'', transactions = [], bills = [],
         debts = [], raw_text = None, error = None\<rparr>)"
  by (auto simp: convert_to_driftmoney_format_def try_body_def)

theorem convert_to_driftmoney_format_missing_substructure_witness:
  "map_of ([] :: (string \<times> pyval) list) ''bill'' = None \<and>
   convert_to_driftmoney_format example_library (PDict []) BILL =
        \<lparr>success = True, document_type = ''bill'', transactions = [], bills = [],
         debts = [], raw_text = None, error = None\<rparr> \<and>
   map_of [(''debt'', PDict [])] ''debt'' = Some (PDict []) \<and> \<not> py_truthy (PDict []) \<and>
   convert_to_driftmoney_format example_library (PDict [(''debt'', PDict [])]) LOAN =
        \<lparr>success = True, document_type = ''loan'', transactions = [], bills = [],
         debts = [], raw_text = None, error = None\<rparr>"
proof -
  have h1: "map_of ([] :: (string \<times> pyval) list) ''bill'' = None \<or>
      (\<exists>v. map_of ([] :: (string \<times> pyval) list) ''bill'' = Some v \<and> \<not> py_truthy v)"
    by simp
  have h2: "map_of [(''debt'', PDict [])] ''debt'' = None \<or>
      (\<exists>v. map_of [(''debt'', PDict [])] ''debt'' = Some v \<and> \<not> py_truthy v)"
    by simp
  from convert_to_driftmoney_format_missing_substructure
         [of "[]" example_library, THEN conjunct1] h1
  have r1: "convert_to_driftmoney_format example_library (PDict []) BILL =
        \<lparr>success = True, document_type = ''bill'', transactions = [], bills = [],
         debts = [], raw_text = None, error = None\<rparr>"
    by (rule mp)
  from convert_to_driftmoney_format_missing_substructure
         [of "[(''debt'', PDict [])]" example_library, THEN conjunct2] h2
  have r2: "convert_to_driftmoney_format example_library (PDict [(''debt'', PDict [])]) LOAN =
        \<lparr>success = True, document_type = ''loan'', transactions = [], bills = [],
         debts = [], raw_text = None, error = None\<rparr>"
    by (rule mp)
  from r1 r2 show ?thesis by simp
qed








end
